theory Spec2Isabelle
  imports Complex_Main
begin

section \<open>VoiceGuard: heuristic scoring engine and audio validation\<close>

text \<open>
  Shallow embedding of \<^verbatim>\<open>VoiceGuard_Final_Code/model.py\<close> (class
  \<^verbatim>\<open>VoiceClassifier\<close>) and \<^verbatim>\<open>VoiceGuard_Final_Code/utils.py\<close>
  (\<^verbatim>\<open>decode_audio\<close>).

  For the rule table, the label and the explanations, Python floats are modelled as exact
  reals: decimal literals such as \<^verbatim>\<open>0.25\<close> stand for the rationals they denote, and
  \<open>+\<close>, \<open>-\<close>, \<open>*\<close> are exact. Where a statement depends on the rounding of the
  arithmetic (the value of the probability before the clamp, the rounding of the returned
  confidence) the computation is modelled a second time in IEEE 754 double precision. The
  one place where the source can produce a float that is not a real number
  (\<^verbatim>\<open>np.log10\<close> of a non-positive ratio in \<^verbatim>\<open>calculate_hnr\<close>) is modelled with an
  explicit value.
\<close>

subsection \<open>Python helpers: rounding, number formatting, join\<close>

text \<open>
  \<^verbatim>\<open>round(x, n)\<close> and the format specification \<^verbatim>\<open>:.nf\<close> round to the nearest
  multiple of \<open>10\<^sup>-\<^sup>n\<close>, ties to even.
\<close>

definition round_half_even :: "real \<Rightarrow> int" where
  "round_half_even x =
     (let n = \<lfloor>x\<rfloor>; r = x - of_int n
      in if r < 1/2 then n
         else if r > 1/2 then n + 1
         else if even n then n else n + 1)"

definition py_round :: "real \<Rightarrow> nat \<Rightarrow> real" where
  "py_round x ndigits = of_int (round_half_even (x * 10 ^ ndigits)) / 10 ^ ndigits"

definition digit_char :: "nat \<Rightarrow> char" where
  "digit_char n = ''0123456789'' ! n"

fun string_of_nat :: "nat \<Rightarrow> string" where
  "string_of_nat n =
     (if n < 10 then [digit_char n]
      else string_of_nat (n div 10) @ [digit_char (n mod 10)])"

declare string_of_nat.simps [simp del]

definition zero_pad :: "nat \<Rightarrow> string \<Rightarrow> string" where
  "zero_pad d s = replicate (d - length s) (CHR ''0'') @ s"

definition format_f :: "nat \<Rightarrow> real \<Rightarrow> string" where
  \<comment> \<open>\<^verbatim>\<open>f"{x:.df}"\<close>\<close>
  "format_f d x =
     (let n = nat (round_half_even (\<bar>x\<bar> * 10 ^ d))
      in (if x < 0 then ''-'' else '''')
         @ string_of_nat (n div 10 ^ d)
         @ (if d = 0 then '''' else ''.'' @ zero_pad d (string_of_nat (n mod 10 ^ d))))"

fun join :: "string \<Rightarrow> string list \<Rightarrow> string" where
  \<comment> \<open>\<^verbatim>\<open>sep.join(xs)\<close>\<close>
  "join sep [] = ''''"
| "join sep [x] = x"
| "join sep (x # y # ys) = x @ sep @ join sep (y # ys)"

subsection \<open>Data model\<close>

text \<open>
  The dictionary returned by \<^verbatim>\<open>extract_features\<close>: seven float fields, taken
  here to hold finite real numbers.
\<close>

record FeatureSet =
  pitch_std :: real
  pitch_mean :: real
  jitter :: real
  shimmer :: real
  hnr :: real
  spectral_flatness :: real
  silence_ratio :: real

datatype label = AI_GENERATED | HUMAN

text \<open>The thresholds set in \<^verbatim>\<open>VoiceClassifier.__init__\<close>.\<close>

definition PITCH_STD_THRESHOLD :: real where "PITCH_STD_THRESHOLD = 20.0"
definition JITTER_THRESHOLD :: real where "JITTER_THRESHOLD = 0.03"
definition SHIMMER_THRESHOLD :: real where "SHIMMER_THRESHOLD = 0.05"
definition HNR_THRESHOLD :: real where "HNR_THRESHOLD = 15.0"
definition SILENCE_RATIO_THRESHOLD :: real where "SILENCE_RATIO_THRESHOLD = 0.05"

subsection \<open>\<^verbatim>\<open>VoiceClassifier.predict\<close>\<close>

text \<open>
  The three local variables that the rules of \<^verbatim>\<open>predict\<close> update in place
  (\<^verbatim>\<open>feature_scores\<close> is a dictionary, kept here as the list of its assignments, latest
  first; it is only logged).
\<close>

record rule_state =
  score :: real
  explanations :: "string list"
  feature_scores :: "(string \<times> real) list"

definition init_state :: rule_state where
  "init_state = \<lparr>score = 0, explanations = [], feature_scores = []\<rparr>"

definition pitch_check :: "FeatureSet \<Rightarrow> rule_state \<Rightarrow> rule_state" where
  "pitch_check f st =
     (if pitch_std f < PITCH_STD_THRESHOLD then
        (let contribution = 0.25
         in st\<lparr>score := score st + contribution,
               feature_scores := (''pitch'', contribution) # feature_scores st,
               explanations := explanations st @
                 [''Monotone pitch pattern (std: '' @ format_f 1 (pitch_std f) @ ''Hz)'']\<rparr>)
      else
        st\<lparr>score := score st - 0.15,
           explanations := explanations st @
             [''Natural pitch variation (std: '' @ format_f 1 (pitch_std f) @ ''Hz)'']\<rparr>)"

definition jitter_check :: "FeatureSet \<Rightarrow> rule_state \<Rightarrow> rule_state" where
  "jitter_check f st =
     (if jitter f < JITTER_THRESHOLD then
        (let contribution = 0.25
         in st\<lparr>score := score st + contribution,
               feature_scores := (''jitter'', contribution) # feature_scores st,
               explanations := explanations st @
                 [''Perfect pitch timing (jitter: '' @ format_f 3 (jitter f) @ '')'']\<rparr>)
      else st\<lparr>score := score st - 0.15\<rparr>)"

definition shimmer_check :: "FeatureSet \<Rightarrow> rule_state \<Rightarrow> rule_state" where
  "shimmer_check f st =
     (if shimmer f < SHIMMER_THRESHOLD then
        (let contribution = 0.2
         in st\<lparr>score := score st + contribution,
               feature_scores := (''shimmer'', contribution) # feature_scores st,
               explanations := explanations st @
                 [''Uniform amplitude (shimmer: '' @ format_f 3 (shimmer f) @ '')'']\<rparr>)
      else st\<lparr>score := score st - 0.1\<rparr>)"

definition hnr_check :: "FeatureSet \<Rightarrow> rule_state \<Rightarrow> rule_state" where
  "hnr_check f st =
     (if hnr f > 20.0 then
        (let contribution = 0.15
         in st\<lparr>score := score st + contribution,
               feature_scores := (''hnr'', contribution) # feature_scores st,
               explanations := explanations st @
                 [''Synthetic clarity (HNR: '' @ format_f 1 (hnr f) @ ''dB)'']\<rparr>)
      else if hnr f < 10.0 then
        st\<lparr>score := score st + 0.1,
           explanations := explanations st @
             [''Unusual noise pattern (HNR: '' @ format_f 1 (hnr f) @ ''dB)'']\<rparr>
      else st)"

definition flatness_check :: "FeatureSet \<Rightarrow> rule_state \<Rightarrow> rule_state" where
  "flatness_check f st =
     (if spectral_flatness f < 0.01 then
        st\<lparr>score := score st + 0.1,
           explanations := explanations st @ [''Overly tonal spectrum'']\<rparr>
      else st)"

definition silence_check :: "FeatureSet \<Rightarrow> rule_state \<Rightarrow> rule_state" where
  "silence_check f st =
     (if silence_ratio f < 0.02 then
        st\<lparr>score := score st + 0.05,
           explanations := explanations st @ [''Lack of natural pauses'']\<rparr>
      else st)"

definition run_rules :: "FeatureSet \<Rightarrow> rule_state" where
  \<comment> \<open>lines 173 to 225: the six checks, in program order\<close>
  "run_rules f =
     silence_check f (flatness_check f (hnr_check f
       (shimmer_check f (jitter_check f (pitch_check f init_state)))))"

definition ai_probability :: "FeatureSet \<Rightarrow> real" where
  \<comment> \<open>lines 228 and 229\<close>
  "ai_probability f =
     (let ai_probability = 0.5 + (score (run_rules f) * 0.8)
      in max 0.01 (min 0.99 ai_probability))"

definition human_traits :: "FeatureSet \<Rightarrow> string list" where
  "human_traits f =
     (if pitch_std f \<ge> PITCH_STD_THRESHOLD then [''dynamic intonation''] else [])
     @ (if jitter f \<ge> JITTER_THRESHOLD then [''natural pitch variation''] else [])
     @ (if shimmer f \<ge> SHIMMER_THRESHOLD then [''organic amplitude changes''] else [])"

text \<open>
  Lines 232 to 257: the values of \<^verbatim>\<open>classification\<close>, \<^verbatim>\<open>confidence\<close>
  and \<^verbatim>\<open>main_explanation\<close> when the log line is reached, as a function of the
  features computed on the first line of \<^verbatim>\<open>predict\<close>.
\<close>

definition predict_locals :: "FeatureSet \<Rightarrow> label \<times> real \<times> string" where
  "predict_locals f =
     (let st = run_rules f;
          p = ai_probability f
      in if p > 0.5 then
           (let classification = AI_GENERATED;
                confidence = p;
                main_explanation =
                  (if length (explanations st) > 0
                   then join '' | '' (take 3 (explanations st))
                   else ''Multiple synthetic audio patterns detected'')
            in (classification, confidence, main_explanation))
         else
           (let classification = HUMAN;
                confidence = 1.0 - p;
                main_explanation =
                  (if human_traits f \<noteq> []
                   then ''Natural speech characteristics: '' @ join '', '' (human_traits f)
                   else ''Natural pitch variation and prosody detected'')
            in (classification, confidence, main_explanation)))"

text \<open>Line 262: the returned triple, the confidence rounded to two decimals.\<close>

definition predict :: "FeatureSet \<Rightarrow> label \<times> real \<times> string" where
  "predict f =
     (case predict_locals f of
        (classification, confidence, main_explanation) \<Rightarrow>
          (classification, py_round confidence 2, main_explanation))"

subsection \<open>Auxiliary definitions for the statements\<close>

text \<open>
  The score counted in twentieths: every delta of the rule table is a multiple of \<open>0.05\<close>.
\<close>

definition score_twentieths :: "FeatureSet \<Rightarrow> int" where
  "score_twentieths f =
     (if pitch_std f < 20 then 5 else - 3)
   + (if jitter f < 0.03 then 5 else - 3)
   + (if shimmer f < 0.05 then 4 else - 2)
   + (if hnr f > 20 then 3 else if hnr f < 10 then 2 else 0)
   + (if spectral_flatness f < 0.01 then 2 else 0)
   + (if silence_ratio f < 0.02 then 1 else 0)"

subsection \<open>The notes of the rule table\<close>

text \<open>
  The notes as the rule table lists them, rule by rule, for comparison with the list
  that \<^verbatim>\<open>predict\<close> accumulates. \<open>later_notes\<close> are the notes of rules 2 to 6;
  \<open>positive_indicator_notes\<close> are the notes of the rules with a positive score delta
  (rule 1 and rules 2 to 6); \<open>accumulated_notes\<close> also holds the note of the
  else-branch of rule 1.
\<close>

definition later_notes :: "FeatureSet \<Rightarrow> string list" where
  "later_notes f =
     (if jitter f < 0.03
      then [''Perfect pitch timing (jitter: '' @ format_f 3 (jitter f) @ '')''] else [])
   @ (if shimmer f < 0.05
      then [''Uniform amplitude (shimmer: '' @ format_f 3 (shimmer f) @ '')''] else [])
   @ (if hnr f > 20 then [''Synthetic clarity (HNR: '' @ format_f 1 (hnr f) @ ''dB)'']
      else if hnr f < 10 then [''Unusual noise pattern (HNR: '' @ format_f 1 (hnr f) @ ''dB)'']
      else [])
   @ (if spectral_flatness f < 0.01 then [''Overly tonal spectrum''] else [])
   @ (if silence_ratio f < 0.02 then [''Lack of natural pauses''] else [])"

definition positive_indicator_notes :: "FeatureSet \<Rightarrow> string list" where
  "positive_indicator_notes f =
     (if pitch_std f < 20
      then [''Monotone pitch pattern (std: '' @ format_f 1 (pitch_std f) @ ''Hz)''] else [])
   @ later_notes f"

definition accumulated_notes :: "FeatureSet \<Rightarrow> string list" where
  "accumulated_notes f =
     (if pitch_std f < 20
      then ''Monotone pitch pattern (std: '' @ format_f 1 (pitch_std f) @ ''Hz)''
      else ''Natural pitch variation (std: '' @ format_f 1 (pitch_std f) @ ''Hz)'')
   # later_notes f"

text \<open>
  The explanation of an \<open>AI_GENERATED\<close> result if only positive-indicator notes were
  accumulated: their first three, or the fallback string when there are none.
\<close>

definition claimed_ai_explanation :: "FeatureSet \<Rightarrow> string" where
  "claimed_ai_explanation f =
     (if positive_indicator_notes f = [] then ''Multiple synthetic audio patterns detected''
      else join '' | '' (take 3 (positive_indicator_notes f)))"

text \<open>
  A feature set with natural pitch variation (\<open>pitch_std = 25\<close>) whose jitter (0.01),
  shimmer (0.02) and HNR (25) all point to synthesis: score \<open>-0.15 + 0.25 + 0.20 + 0.15 = 0.45\<close>,
  probability \<open>0.86\<close>.
\<close>

definition natural_pitch_clear_voice :: FeatureSet where
  "natural_pitch_clear_voice =
     \<lparr>pitch_std = 25, pitch_mean = 120, jitter = 0.01, shimmer = 0.02, hnr = 25,
      spectral_flatness = 0.05, silence_ratio = 0.1\<rparr>"

subsection \<open>Double-precision arithmetic\<close>

text \<open>
  Python floats are IEEE 754 binary64 numbers. The statements on the running score, the
  label and the explanations above do not depend on how the arithmetic rounds; the
  statements on the values of the pre-clamp probability and of the rounded confidence do.
  For these the arithmetic of \<^verbatim>\<open>predict\<close> is modelled in double precision: a double is
  the real number it denotes, and every decimal literal and every \<open>+\<close>, \<open>-\<close>, \<open>*\<close>
  yields the double nearest to the exact result, ties to the even significand (\<open>fl\<close>; a
  significand of 53 bits, the exponent range is not exceeded by any value of \<^verbatim>\<open>predict\<close>).
  \<open>binade x\<close> is the exponent \<open>e\<close> with \<open>2\<^sup>e \<le> \<bar>x\<bar> < 2\<^sup>e\<^sup>+\<^sup>1\<close>.
\<close>

definition binade :: "real \<Rightarrow> int" where
  "binade x = \<lfloor>log 2 \<bar>x\<bar>\<rfloor>"

definition fl :: "real \<Rightarrow> real" where
  "fl x =
     (if x = 0 then 0
      else (let ulp = 2 powr (of_int (binade x) - 52)
            in of_int (round_half_even (x / ulp)) * ulp))"

text \<open>
  \<^verbatim>\<open>round(x, n)\<close> of a double: the exact value of \<open>x\<close> is rounded to \<open>n\<close> decimals, ties to
  even, and the result is the double nearest to that decimal.
\<close>

definition py_round_f64 :: "real \<Rightarrow> nat \<Rightarrow> real" where
  "py_round_f64 x ndigits = fl (py_round x ndigits)"

subsection \<open>The score and the confidence of \<^verbatim>\<open>predict\<close> in double precision\<close>

text \<open>
  The updates of the variable \<^verbatim>\<open>score\<close> by the six rules (lines 173 to 225), with the
  comparisons and the additions as the interpreter performs them on doubles; \<open>s\<close> is
  the value of \<^verbatim>\<open>score\<close> before the rule.
\<close>

definition pitch_step :: "FeatureSet \<Rightarrow> real \<Rightarrow> real" where
  "pitch_step f s =
     (if pitch_std f < fl PITCH_STD_THRESHOLD then fl (s + fl 0.25)
      else fl (s - fl 0.15))"

definition jitter_step :: "FeatureSet \<Rightarrow> real \<Rightarrow> real" where
  "jitter_step f s =
     (if jitter f < fl JITTER_THRESHOLD then fl (s + fl 0.25)
      else fl (s - fl 0.15))"

definition shimmer_step :: "FeatureSet \<Rightarrow> real \<Rightarrow> real" where
  "shimmer_step f s =
     (if shimmer f < fl SHIMMER_THRESHOLD then fl (s + fl 0.2)
      else fl (s - fl 0.1))"

definition hnr_step :: "FeatureSet \<Rightarrow> real \<Rightarrow> real" where
  "hnr_step f s =
     (if hnr f > fl 20.0 then fl (s + fl 0.15)
      else if hnr f < fl 10.0 then fl (s + fl 0.1)
      else s)"

definition flatness_step :: "FeatureSet \<Rightarrow> real \<Rightarrow> real" where
  "flatness_step f s =
     (if spectral_flatness f < fl 0.01 then fl (s + fl 0.1) else s)"

definition silence_step :: "FeatureSet \<Rightarrow> real \<Rightarrow> real" where
  "silence_step f s =
     (if silence_ratio f < fl 0.02 then fl (s + fl 0.05) else s)"

definition score_f64 :: "FeatureSet \<Rightarrow> real" where
  \<comment> \<open>the variable \<^verbatim>\<open>score\<close> after the six rules\<close>
  "score_f64 f =
     silence_step f (flatness_step f (hnr_step f
       (shimmer_step f (jitter_step f (pitch_step f 0)))))"

definition pre_clamp_f64 :: "FeatureSet \<Rightarrow> real" where
  \<comment> \<open>line 228: \<^verbatim>\<open>ai_probability = 0.5 + (score * 0.8)\<close>\<close>
  "pre_clamp_f64 f = fl (fl 0.5 + fl (score_f64 f * fl 0.8))"

definition ai_probability_f64 :: "FeatureSet \<Rightarrow> real" where
  \<comment> \<open>line 229: \<^verbatim>\<open>max(0.01, min(0.99, ai_probability))\<close>\<close>
  "ai_probability_f64 f = max (fl 0.01) (min (fl 0.99) (pre_clamp_f64 f))"

text \<open>
  Lines 232 to 243: the variables \<^verbatim>\<open>classification\<close> and \<^verbatim>\<open>confidence\<close>; line 262:
  the confidence that is returned.
\<close>

definition classification_f64 :: "FeatureSet \<Rightarrow> label" where
  "classification_f64 f = (if ai_probability_f64 f > fl 0.5 then AI_GENERATED else HUMAN)"

definition confidence_f64 :: "FeatureSet \<Rightarrow> real" where
  "confidence_f64 f =
     (if ai_probability_f64 f > fl 0.5 then ai_probability_f64 f
      else fl (fl 1.0 - ai_probability_f64 f))"

definition returned_confidence_f64 :: "FeatureSet \<Rightarrow> real" where
  "returned_confidence_f64 f = py_round_f64 (confidence_f64 f) 2"

text \<open>
  For the statements: the sum, counted in twentieths, of the decimal deltas of the branches
  that the double-precision comparisons select, and the conditions under which no rule
  fires and under which every positive rule fires.
\<close>

definition twentieths_f64 :: "FeatureSet \<Rightarrow> int" where
  "twentieths_f64 f =
     (if pitch_std f < fl PITCH_STD_THRESHOLD then 5 else - 3)
   + (if jitter f < fl JITTER_THRESHOLD then 5 else - 3)
   + (if shimmer f < fl SHIMMER_THRESHOLD then 4 else - 2)
   + (if hnr f > fl 20.0 then 3 else if hnr f < fl 10.0 then 2 else 0)
   + (if spectral_flatness f < fl 0.01 then 2 else 0)
   + (if silence_ratio f < fl 0.02 then 1 else 0)"

definition no_rule_fires :: "FeatureSet \<Rightarrow> bool" where
  "no_rule_fires f \<longleftrightarrow>
     fl PITCH_STD_THRESHOLD \<le> pitch_std f \<and> fl JITTER_THRESHOLD \<le> jitter f
     \<and> fl SHIMMER_THRESHOLD \<le> shimmer f \<and> fl 10.0 \<le> hnr f \<and> hnr f \<le> fl 20.0
     \<and> fl 0.01 \<le> spectral_flatness f \<and> fl 0.02 \<le> silence_ratio f"

definition every_rule_fires :: "FeatureSet \<Rightarrow> bool" where
  "every_rule_fires f \<longleftrightarrow>
     pitch_std f < fl PITCH_STD_THRESHOLD \<and> jitter f < fl JITTER_THRESHOLD
     \<and> shimmer f < fl SHIMMER_THRESHOLD \<and> hnr f > fl 20.0
     \<and> spectral_flatness f < fl 0.01 \<and> silence_ratio f < fl 0.02"

text \<open>
  Two feature sets at the extremes of the rule table, all fields doubles: no condition
  holds, and every positive rule fires.
\<close>

definition all_fail :: FeatureSet where
  "all_fail = \<lparr>pitch_std = 32, pitch_mean = 0, jitter = 1/16, shimmer = 1/8, hnr = 15,
       spectral_flatness = 1/2, silence_ratio = 1/2\<rparr>"

definition all_fire :: FeatureSet where
  "all_fire = \<lparr>pitch_std = 0, pitch_mean = 0, jitter = 0, shimmer = 0, hnr = 32,
       spectral_flatness = 0, silence_ratio = 0\<rparr>"

subsection \<open>\<^verbatim>\<open>decode_audio\<close> (utils.py)\<close>

text \<open>
  Base64 decoding, MP3 decoding and resampling are done by library calls inside the
  \<^verbatim>\<open>try\<close> block. Their outcome is the argument of the model: \<open>Inl msg\<close> when one
  of them raises an exception whose text is \<open>msg\<close>, \<open>Inr (samples, sample_width)\<close>
  for the integer samples and the width in bytes of the resampled mono segment. A Python
  exception is modelled by its class and message.
\<close>

datatype py_error = ValueError string

text \<open>
  The divisor of the normalisation (lines 36 to 42). For a width of 0 the shift
  \<^verbatim>\<open>1 << (8 * 0 - 1)\<close> raises; the body below handles that case before dividing.
\<close>

definition sample_scale :: "nat \<Rightarrow> real" where
  "sample_scale sample_width =
     (if sample_width = 2 then 32768.0
      else if sample_width = 4 then 2147483648.0
      else real_of_int (2 ^ (8 * sample_width - 1)))"

text \<open>
  The body of the \<^verbatim>\<open>try\<close> block: \<open>Inl msg\<close> is an exception raised inside it,
  with \<open>msg\<close> the text that \<^verbatim>\<open>str(e)\<close> gives.
\<close>

definition decode_audio_body :: "string + int list \<times> nat \<Rightarrow> string + real list \<times> nat" where
  "decode_audio_body decoded =
     (case decoded of
        Inl msg \<Rightarrow> Inl msg
      | Inr (samples, sample_width) \<Rightarrow>
          if sample_width = 0 then Inl ''negative shift count''
          else
            (let data = map (\<lambda>s. real_of_int s / sample_scale sample_width) samples
             in if real (length data) < 22050 * 0.5
                then Inl ''Audio processing failed: Audio too short (min 0.5s required)''
                else Inr (data, 22050)))"

text \<open>The handler re-raises every exception as a \<^verbatim>\<open>ValueError\<close> with a prefix.\<close>

definition decode_audio :: "string + int list \<times> nat \<Rightarrow> py_error + real list \<times> nat" where
  "decode_audio decoded =
     (case decode_audio_body decoded of
        Inl msg \<Rightarrow> Inl (ValueError (''Failed to process audio: '' @ msg))
      | Inr result \<Rightarrow> Inr result)"

subsection \<open>\<^verbatim>\<open>VoiceClassifier.calculate_hnr\<close>\<close>

text \<open>
  The values a numpy float expression can take here: a real number, an infinity or
  \<^verbatim>\<open>nan\<close>. With numpy's default error settings \<^verbatim>\<open>np.log10\<close> of zero is
  \<^verbatim>\<open>-inf\<close> and of a negative number is \<^verbatim>\<open>nan\<close>, both with a warning and no
  exception; \<^verbatim>\<open>np.clip\<close> maps the infinities to the bounds and keeps \<^verbatim>\<open>nan\<close>.
\<close>

datatype np_float = Finite real | PlusInf | MinusInf | NaN

definition np_log10 :: "real \<Rightarrow> np_float" where
  "np_log10 x = (if x > 0 then Finite (log 10 x) else if x = 0 then MinusInf else NaN)"

fun np_times :: "real \<Rightarrow> np_float \<Rightarrow> np_float" where
  "np_times c (Finite x) = Finite (c * x)"
| "np_times c PlusInf = (if c > 0 then PlusInf else if c < 0 then MinusInf else NaN)"
| "np_times c MinusInf = (if c > 0 then MinusInf else if c < 0 then PlusInf else NaN)"
| "np_times c NaN = NaN"

fun np_clip :: "np_float \<Rightarrow> real \<Rightarrow> real \<Rightarrow> np_float" where
  "np_clip (Finite x) lo hi = Finite (min hi (max lo x))"
| "np_clip PlusInf lo hi = Finite hi"
| "np_clip MinusInf lo hi = Finite (min hi lo)"
| "np_clip NaN lo hi = NaN"

text \<open>\<^verbatim>\<open>np.mean\<close> of a non-empty array and the slice \<^verbatim>\<open>xs[a:b]\<close> with \<open>0 \<le> a\<close>.\<close>

definition np_mean :: "real list \<Rightarrow> real" where
  "np_mean xs = sum_list xs / real (length xs)"

definition slice :: "'a list \<Rightarrow> nat \<Rightarrow> nat \<Rightarrow> 'a list" where
  "slice xs a b = take (b - a) (drop a xs)"

text \<open>
  The loop of lines 82 to 86: the list \<^verbatim>\<open>peaks\<close> of pairs \<open>(i, autocorr[i])\<close>, in
  increasing order of \<open>i\<close>, for \<open>i\<close> in \<^verbatim>\<open>range(1, min(len(autocorr), sr // 50))\<close>.
\<close>

definition find_peaks :: "real list \<Rightarrow> int \<Rightarrow> (nat \<times> real) list" where
  "find_peaks autocorr sr =
     map (\<lambda>i. (i, autocorr ! i))
       (filter (\<lambda>i. 0 < i \<and> int i < int (length autocorr) - 1
                     \<and> autocorr ! i > autocorr ! (i - 1) \<and> autocorr ! i > autocorr ! (i + 1))
          [1 ..< nat (min (int (length autocorr)) (sr div 50))])"

text \<open>
  \<^verbatim>\<open>max(peaks, key=lambda x: x[1])\<close> on a non-empty list, as a scan that keeps the
  first item of largest key: \<open>py_max_from p ps\<close> is the maximum of \<open>p # ps\<close>.
\<close>

fun py_max_from :: "nat \<times> real \<Rightarrow> (nat \<times> real) list \<Rightarrow> nat \<times> real" where
  "py_max_from best [] = best"
| "py_max_from best (p # ps) = py_max_from (if snd p > snd best then p else best) ps"

text \<open>
  \<^verbatim>\<open>calculate_hnr(y, sr)\<close>. The library call \<^verbatim>\<open>librosa.autocorrelate\<close> is a
  parameter: it returns the autocorrelation sequence, or \<open>None\<close> when it raises, which
  the \<^verbatim>\<open>except\<close> clause turns into 10.0. No other statement of the body raises.
\<close>

definition calculate_hnr :: "(real list \<Rightarrow> real list option) \<Rightarrow> real list \<Rightarrow> int \<Rightarrow> np_float" where
  "calculate_hnr librosa_autocorrelate y sr =
     (case librosa_autocorrelate y of
        None \<Rightarrow> Finite 10.0
      | Some autocorr \<Rightarrow>
          (case find_peaks autocorr sr of
             [] \<Rightarrow> Finite 10.0
           | p # ps \<Rightarrow>
               (let (peak_idx, peak_val) = py_max_from p ps;
                    signal_power = peak_val;
                    noise_power =
                      (if peak_idx + 50 < length autocorr
                       then np_mean (slice autocorr (peak_idx + 1) (peak_idx + 50))
                       else np_mean (drop (peak_idx + 1) autocorr))
                in if noise_power > 0
                   then np_clip (np_times 10 (np_log10 (signal_power / noise_power))) 0 40
                   else Finite 10.0)))"

text \<open>
  The autocorrelation itself: lag \<open>k\<close> of a signal \<open>y\<close> is the sum of
  \<open>y[n] * y[n + k]\<close>, and there are as many lags as samples. The library computes it by a
  fast Fourier transform in floating point, so its result agrees with these sums only up
  to a rounding error: \<open>within_tolerance eps xs ys\<close> says that two sequences of the same
  length differ by at most \<open>eps\<close> at every index. \<open>three_pulses\<close> is a signal of 53
  samples with pulses 1/2, 1/4 and 1/8 at positions 0, 2 and 52.
\<close>

definition autocorr_at :: "real list \<Rightarrow> nat \<Rightarrow> real" where
  "autocorr_at y k = sum_list (map (\<lambda>n. y ! n * y ! (n + k)) [0 ..< length y - k])"

definition exact_autocorrelate :: "real list \<Rightarrow> real list option" where
  "exact_autocorrelate y = Some (map (autocorr_at y) [0 ..< length y])"

definition within_tolerance :: "real \<Rightarrow> real list \<Rightarrow> real list \<Rightarrow> bool" where
  "within_tolerance eps xs ys \<longleftrightarrow>
     length xs = length ys \<and> (\<forall>k < length ys. \<bar>xs ! k - ys ! k\<bar> \<le> eps)"

definition three_pulses :: "real list" where
  "three_pulses = [1/2, 0, 1/4] @ replicate 49 0 @ [1/8]"

text \<open>
  Notions for the statements: \<open>i\<close> is a local maximum inside the search range, and the
  samples that follow a peak at lags \<open>i + 1\<close> to \<open>i + 49\<close>, cut at the end of the
  sequence.
\<close>

definition is_local_max :: "real list \<Rightarrow> int \<Rightarrow> nat \<Rightarrow> bool" where
  "is_local_max autocorr sr i \<longleftrightarrow>
     1 \<le> i \<and> int i < sr div 50 \<and> i + 1 < length autocorr
     \<and> autocorr ! (i - 1) < autocorr ! i \<and> autocorr ! (i + 1) < autocorr ! i"

definition noise_window :: "real list \<Rightarrow> nat \<Rightarrow> real list" where
  "noise_window autocorr i = map (\<lambda>k. autocorr ! k) [i + 1 ..< min (i + 50) (length autocorr)]"

text \<open>
  The noise power and the result with a window of the next 50 samples (or all that
  remain), everything else as in \<open>calculate_hnr\<close>.
\<close>

definition claimed_noise_power :: "real list \<Rightarrow> nat \<Rightarrow> real" where
  "claimed_noise_power autocorr peak_idx = np_mean (take 50 (drop (peak_idx + 1) autocorr))"

definition claimed_hnr :: "(real list \<Rightarrow> real list option) \<Rightarrow> real list \<Rightarrow> int \<Rightarrow> np_float" where
  "claimed_hnr librosa_autocorrelate y sr =
     (case librosa_autocorrelate y of
        None \<Rightarrow> Finite 10.0
      | Some autocorr \<Rightarrow>
          (case find_peaks autocorr sr of
             [] \<Rightarrow> Finite 10.0
           | p # ps \<Rightarrow>
               (let (peak_idx, peak_val) = py_max_from p ps;
                    noise_power = claimed_noise_power autocorr peak_idx
                in if noise_power > 0
                   then np_clip (np_times 10 (np_log10 (peak_val / noise_power))) 0 40
                   else Finite 10.0)))"

text \<open>The indices that the loop of \<open>find_peaks\<close> selects.\<close>

definition peak_indices :: "real list \<Rightarrow> int \<Rightarrow> nat list" where
  "peak_indices autocorr sr =
     filter (\<lambda>i. 0 < i \<and> int i < int (length autocorr) - 1
                   \<and> autocorr ! i > autocorr ! (i - 1) \<and> autocorr ! i > autocorr ! (i + 1))
       [1 ..< nat (min (int (length autocorr)) (sr div 50))]"

text \<open>The autocorrelation of \<open>three_pulses\<close>, and a silent signal of eight samples.\<close>

definition three_pulses_autocorr :: "real list" where
  "three_pulses_autocorr = [21/64, 0, 1/8] @ replicate 47 0 @ [1/32, 0, 1/16]"

definition silent_signal :: "real list" where
  "silent_signal = replicate 8 0"

text \<open>
  The same pulses in a signal of 11025 samples, its autocorrelation, and the 16-bit
  samples that \<open>decode_audio\<close> normalises to it.
\<close>

definition padded_pulses :: "real list" where
  "padded_pulses = three_pulses @ replicate 10972 0"

definition padded_autocorr :: "real list" where
  "padded_autocorr = three_pulses_autocorr @ replicate 10972 0"

definition pulse_samples :: "int list" where
  "pulse_samples = [16384, 0, 8192] @ replicate 49 0 @ [4096] @ replicate 10972 0"

text \<open>The comparison \<^verbatim>\<open><\<close> of two numpy floats; it is false when either side is \<^verbatim>\<open>nan\<close>.\<close>

fun np_less :: "np_float \<Rightarrow> np_float \<Rightarrow> bool" where
  "np_less (Finite a) (Finite b) \<longleftrightarrow> a < b"
| "np_less (Finite a) PlusInf \<longleftrightarrow> True"
| "np_less MinusInf (Finite b) \<longleftrightarrow> True"
| "np_less MinusInf PlusInf \<longleftrightarrow> True"
| "np_less x y \<longleftrightarrow> False"

section \<open>Properties of the scoring engine\<close>

subsection \<open>Rounding\<close>

lemma round_half_even_bounds:
  assumes "of_int a \<le> x" "x \<le> of_int b"
  shows "a \<le> round_half_even x \<and> round_half_even x \<le> b"
proof -
  have 1: "a \<le> \<lfloor>x\<rfloor>" using assms(1) by (simp add: le_floor_iff)
  have 2: "\<lfloor>x\<rfloor> \<le> b" using assms(2) by (simp add: floor_le_iff)
  have 3: "\<lfloor>x\<rfloor> + 1 \<le> b" if "x - of_int \<lfloor>x\<rfloor> \<ge> 1/2"
  proof -
    have "of_int \<lfloor>x\<rfloor> < (of_int b :: real)" using assms(2) that by linarith
    then show ?thesis by simp
  qed
  show ?thesis
  proof (cases "x - of_int \<lfloor>x\<rfloor> < 1/2")
    case True
    then show ?thesis using 1 2 by (simp add: round_half_even_def Let_def)
  next
    case False
    then have "\<lfloor>x\<rfloor> + 1 \<le> b" using 3 by simp
    then show ?thesis using 1 2 by (simp add: round_half_even_def Let_def)
  qed
qed

lemma round_half_even_of_int: "round_half_even (of_int k) = k"
  by (simp add: round_half_even_def)

subsection \<open>The running score\<close>

lemma score_pitch_check:
  "score (pitch_check f st) = score st + (if pitch_std f < 20 then 0.25 else - 0.15)"
  by (simp add: pitch_check_def PITCH_STD_THRESHOLD_def Let_def)

lemma score_jitter_check:
  "score (jitter_check f st) = score st + (if jitter f < 0.03 then 0.25 else - 0.15)"
  by (simp add: jitter_check_def JITTER_THRESHOLD_def Let_def)

lemma score_shimmer_check:
  "score (shimmer_check f st) = score st + (if shimmer f < 0.05 then 0.20 else - 0.10)"
  by (simp add: shimmer_check_def SHIMMER_THRESHOLD_def Let_def)

lemma score_hnr_check:
  "score (hnr_check f st) =
     score st + (if hnr f > 20 then 0.15 else if hnr f < 10 then 0.10 else 0)"
  by (simp add: hnr_check_def Let_def)

lemma score_flatness_check:
  "score (flatness_check f st) = score st + (if spectral_flatness f < 0.01 then 0.10 else 0)"
  by (simp add: flatness_check_def)

lemma score_silence_check:
  "score (silence_check f st) = score st + (if silence_ratio f < 0.02 then 0.05 else 0)"
  by (simp add: silence_check_def)

lemmas score_checks = score_pitch_check score_jitter_check score_shimmer_check
  score_hnr_check score_flatness_check score_silence_check

lemma score_run_rules:
  "score (run_rules f) =
     (if pitch_std f < 20 then 0.25 else - 0.15)
   + (if jitter f < 0.03 then 0.25 else - 0.15)
   + (if shimmer f < 0.05 then 0.20 else - 0.10)
   + (if hnr f > 20 then 0.15 else if hnr f < 10 then 0.10 else 0)
   + (if spectral_flatness f < 0.01 then 0.10 else 0)
   + (if silence_ratio f < 0.02 then 0.05 else 0)"
proof -
  have "score init_state = 0" by (simp add: init_state_def)
  then show ?thesis
    unfolding run_rules_def score_checks by (simp only: add_0)
qed

lemma score_bounds: "- 0.4 \<le> score (run_rules f) \<and> score (run_rules f) \<le> 1"
proof -
  define a :: real where "a = (if pitch_std f < 20 then 0.25 else - 0.15)"
  define b :: real where "b = (if jitter f < 0.03 then 0.25 else - 0.15)"
  define c :: real where "c = (if shimmer f < 0.05 then 0.20 else - 0.10)"
  define d :: real where "d = (if hnr f > 20 then 0.15 else if hnr f < 10 then 0.10 else 0)"
  define e :: real where "e = (if spectral_flatness f < 0.01 then 0.10 else 0)"
  define g :: real where "g = (if silence_ratio f < 0.02 then 0.05 else 0)"
  have s: "score (run_rules f) = a + b + c + d + e + g"
    unfolding score_run_rules a_def b_def c_def d_def e_def g_def ..
  have "- (3/20) \<le> a" "a \<le> 1/4" "- (3/20) \<le> b" "b \<le> 1/4" "- (1/10) \<le> c" "c \<le> 1/5"
    "0 \<le> d" "d \<le> 3/20" "0 \<le> e" "e \<le> 1/10" "0 \<le> g" "g \<le> 1/20"
    by (simp_all add: a_def b_def c_def d_def e_def g_def)
  then have "- (2/5) \<le> a + b + c + d + e + g \<and> a + b + c + d + e + g \<le> 1"
    by linarith
  then show ?thesis unfolding s by simp
qed

lemma ai_probability_bounds: "0.18 \<le> ai_probability f \<and> ai_probability f \<le> 0.99"
proof -
  have "- (2/5) \<le> score (run_rules f)" using score_bounds [of f] by simp
  then have "9/50 \<le> 1/2 + score (run_rules f) * (4/5)" by linarith
  then show ?thesis by (simp add: ai_probability_def Let_def min_def max_def)
qed


lemma if_twentieths:
  "(of_int (if c then a else b) :: real) / 20 = (if c then of_int a / 20 else of_int b / 20)"
  by simp

lemma score_as_twentieths: "score (run_rules f) = of_int (score_twentieths f) / 20"
  unfolding score_run_rules score_twentieths_def of_int_add add_divide_distrib if_twentieths
  by (intro arg_cong2 [where f = "(+)"]) simp_all

lemma ai_probability_hundredths:
  "ai_probability f = of_int (max 1 (min 99 (50 + 4 * score_twentieths f))) / 100"
proof -
  define k where "k = score_twentieths f"
  have pre: "0.5 + score (run_rules f) * 0.8 = of_int (50 + 4 * k) / 100"
    unfolding score_as_twentieths k_def by simp
  have "ai_probability f = max 0.01 (min 0.99 (0.5 + score (run_rules f) * 0.8))"
    by (simp add: ai_probability_def Let_def)
  also have "\<dots> = max (of_int 1 / 100) (min (of_int 99 / 100) (of_int (50 + 4 * k) / 100))"
    unfolding pre by simp
  also have "\<dots> = of_int (max 1 (min 99 (50 + 4 * k))) / 100"
    by (simp add: min_def max_def)
  finally show ?thesis unfolding k_def .
qed

subsection \<open>Label and confidence\<close>

lemma py_round_hundredths: "py_round (of_int m / 100) 2 = of_int m / 100"
  by (simp add: py_round_def round_half_even_of_int)

lemma predict_locals_label:
  "fst (predict_locals f) = (if ai_probability f > 0.5 then AI_GENERATED else HUMAN)"
  by (simp add: predict_locals_def Let_def)

lemma predict_locals_confidence:
  "fst (snd (predict_locals f)) =
     (if ai_probability f > 0.5 then ai_probability f else 1 - ai_probability f)"
  by (simp add: predict_locals_def Let_def)

lemma predict_label: "fst (predict f) = fst (predict_locals f)"
  by (simp add: predict_def split: prod.splits)

lemma predict_confidence: "fst (snd (predict f)) = py_round (fst (snd (predict_locals f))) 2"
  by (simp add: predict_def split: prod.splits)

lemma predict_explanation: "snd (snd (predict f)) = snd (snd (predict_locals f))"
  by (simp add: predict_def split: prod.splits)

lemma confidence_hundredths:
  "\<exists>m::int. fst (snd (predict_locals f)) = of_int m / 100"
proof (cases "ai_probability f > 0.5")
  case True
  then have "fst (snd (predict_locals f)) =
      of_int (max 1 (min 99 (50 + 4 * score_twentieths f))) / 100"
    unfolding predict_locals_confidence using ai_probability_hundredths [of f] by simp
  then show ?thesis ..
next
  case False
  have "1 - ai_probability f =
      of_int (100 - max 1 (min 99 (50 + 4 * score_twentieths f))) / 100"
    unfolding ai_probability_hundredths by (simp add: field_simps)
  with False have "fst (snd (predict_locals f)) =
      of_int (100 - max 1 (min 99 (50 + 4 * score_twentieths f))) / 100"
    unfolding predict_locals_confidence by simp
  then show ?thesis ..
qed

lemma rounding_is_exact: "fst (snd (predict f)) = fst (snd (predict_locals f))"
proof -
  obtain m :: int where m: "fst (snd (predict_locals f)) = of_int m / 100"
    using confidence_hundredths [of f] by blast
  show ?thesis unfolding predict_confidence m by (rule py_round_hundredths)
qed


text \<open>
  Claim C1. The running score starts at 0 and, after the six checks in program order, is the
  sum of six contributions, each decided by its own feature alone: +0.25 if
  \<open>pitch_std < 20.0\<close> else -0.15; +0.25 if \<open>jitter < 0.03\<close> else -0.15; +0.20 if
  \<open>shimmer < 0.05\<close> else -0.10; +0.15 if \<open>hnr > 20.0\<close>, +0.10 if \<open>hnr < 10.0\<close>, 0
  in between; +0.10 if \<open>spectral_flatness < 0.01\<close>; +0.05 if
  \<open>silence_ratio < 0.02\<close>. The probability is \<open>0.5 + score * 0.8\<close> clamped to
  \<open>[0.01, 0.99]\<close>.
\<close>

theorem score_rules_and_probability:
  "score init_state = 0
   \<and> score (run_rules f) =
       (if pitch_std f < 20.0 then 0.25 else - 0.15)
     + (if jitter f < 0.03 then 0.25 else - 0.15)
     + (if shimmer f < 0.05 then 0.20 else - 0.10)
     + (if hnr f > 20.0 then 0.15 else if hnr f < 10.0 then 0.10 else 0)
     + (if spectral_flatness f < 0.01 then 0.10 else 0)
     + (if silence_ratio f < 0.02 then 0.05 else 0)
   \<and> ai_probability f = max 0.01 (min 0.99 (0.5 + score (run_rules f) * 0.8))"
proof -
  have 1: "score init_state = 0" by (simp add: init_state_def)
  have 2: "score (run_rules f) =
       (if pitch_std f < 20.0 then 0.25 else - 0.15)
     + (if jitter f < 0.03 then 0.25 else - 0.15)
     + (if shimmer f < 0.05 then 0.20 else - 0.10)
     + (if hnr f > 20.0 then 0.15 else if hnr f < 10.0 then 0.10 else 0)
     + (if spectral_flatness f < 0.01 then 0.10 else 0)
     + (if silence_ratio f < 0.02 then 0.05 else 0)"
    using score_run_rules [of f] by simp
  have 3: "ai_probability f = max 0.01 (min 0.99 (0.5 + score (run_rules f) * 0.8))"
    by (simp add: ai_probability_def Let_def)
  from 1 2 3 show ?thesis by (intro conjI)
qed

text \<open>
  Claim C2. The returned label is \<open>AI_GENERATED\<close> exactly when the clamped
  \<open>ai_probability\<close> is strictly greater than 0.5, and \<open>HUMAN\<close> otherwise.
\<close>

theorem label_iff_probability:
  "(fst (predict f) = AI_GENERATED) = (ai_probability f > 0.5)
   \<and> (fst (predict f) = HUMAN) = (\<not> ai_probability f > 0.5)"
  by (simp add: predict_label predict_locals_label)

text \<open>
  Claim C9. The confidence before rounding is at least 0.5 and at most 0.99: in the
  \<open>AI_GENERATED\<close> branch it is \<open>ai_probability > 0.5\<close>, in the \<open>HUMAN\<close> branch it
  is \<open>1 - ai_probability\<close> with \<open>ai_probability \<le> 0.5\<close>. The same bounds hold for the
  rounded confidence that is returned.
\<close>

theorem confidence_at_least_half:
  "(case predict_locals f of (classification, confidence, main_explanation) \<Rightarrow>
      0.5 \<le> confidence \<and> confidence \<le> 0.99
      \<and> (if classification = AI_GENERATED
          then confidence = ai_probability f \<and> ai_probability f > 0.5
          else classification = HUMAN \<and> confidence = 1 - ai_probability f
               \<and> ai_probability f \<le> 0.5))
   \<and> 0.5 \<le> fst (snd (predict f)) \<and> fst (snd (predict f)) \<le> 0.99"
proof -
  have a: "fst (predict_locals f) = (if ai_probability f > 0.5 then AI_GENERATED else HUMAN)"
    by (rule predict_locals_label)
  have b: "fst (snd (predict_locals f)) =
             (if ai_probability f > 0.5 then ai_probability f else 1 - ai_probability f)"
    by (rule predict_locals_confidence)
  have c: "0.5 \<le> fst (snd (predict_locals f)) \<and> fst (snd (predict_locals f)) \<le> 0.99"
    unfolding b using ai_probability_bounds [of f] by simp
  have d: "0.5 \<le> fst (snd (predict f)) \<and> fst (snd (predict f)) \<le> 0.99"
    unfolding rounding_is_exact by (rule c)
  obtain l c' e where p: "predict_locals f = (l, c', e)" by (cases "predict_locals f")
  show ?thesis using a b c d unfolding p by (simp split: if_splits)
qed

subsection \<open>Explanations\<close>

lemma explanations_pitch_check:
  "explanations (pitch_check f st) = explanations st @
     [if pitch_std f < 20
      then ''Monotone pitch pattern (std: '' @ format_f 1 (pitch_std f) @ ''Hz)''
      else ''Natural pitch variation (std: '' @ format_f 1 (pitch_std f) @ ''Hz)'']"
  by (simp add: pitch_check_def PITCH_STD_THRESHOLD_def Let_def)

lemma explanations_jitter_check:
  "explanations (jitter_check f st) = explanations st @
     (if jitter f < 0.03
      then [''Perfect pitch timing (jitter: '' @ format_f 3 (jitter f) @ '')''] else [])"
  by (simp add: jitter_check_def JITTER_THRESHOLD_def Let_def)

lemma explanations_shimmer_check:
  "explanations (shimmer_check f st) = explanations st @
     (if shimmer f < 0.05
      then [''Uniform amplitude (shimmer: '' @ format_f 3 (shimmer f) @ '')''] else [])"
  by (simp add: shimmer_check_def SHIMMER_THRESHOLD_def Let_def)

lemma explanations_hnr_check:
  "explanations (hnr_check f st) = explanations st @
     (if hnr f > 20 then [''Synthetic clarity (HNR: '' @ format_f 1 (hnr f) @ ''dB)'']
      else if hnr f < 10 then [''Unusual noise pattern (HNR: '' @ format_f 1 (hnr f) @ ''dB)'']
      else [])"
  by (simp add: hnr_check_def Let_def)

lemma explanations_flatness_check:
  "explanations (flatness_check f st) = explanations st @
     (if spectral_flatness f < 0.01 then [''Overly tonal spectrum''] else [])"
  by (simp add: flatness_check_def)

lemma explanations_silence_check:
  "explanations (silence_check f st) = explanations st @
     (if silence_ratio f < 0.02 then [''Lack of natural pauses''] else [])"
  by (simp add: silence_check_def)

lemma explanations_run_rules: "explanations (run_rules f) = accumulated_notes f"
proof -
  have "explanations init_state = []" by (simp add: init_state_def)
  then show ?thesis
    unfolding run_rules_def accumulated_notes_def later_notes_def
      explanations_pitch_check explanations_jitter_check explanations_shimmer_check
      explanations_hnr_check explanations_flatness_check explanations_silence_check
    by (simp only: append_Nil append_Cons append_assoc)
qed

lemma accumulated_notes_nonempty: "accumulated_notes f \<noteq> [] \<and> hd (accumulated_notes f) \<noteq> []"
  by (simp add: accumulated_notes_def)

lemma join_nonempty: "xs \<noteq> [] \<Longrightarrow> hd xs \<noteq> [] \<Longrightarrow> join sep xs \<noteq> []"
  by (induction sep xs rule: join.induct) simp_all

lemma take3_nonempty: "xs \<noteq> [] \<Longrightarrow> take 3 xs \<noteq> [] \<and> hd (take 3 xs) = hd xs"
  by (cases xs) simp_all

lemma ai_explanation:
  "ai_probability f > 0.5 \<Longrightarrow>
     snd (snd (predict f)) = join '' | '' (take 3 (accumulated_notes f))"
  using accumulated_notes_nonempty [of f]
  by (simp add: predict_explanation predict_locals_def Let_def explanations_run_rules)

lemma human_explanation:
  "\<not> ai_probability f > 0.5 \<Longrightarrow>
     snd (snd (predict f)) =
       (if human_traits f \<noteq> []
        then ''Natural speech characteristics: '' @ join '', '' (human_traits f)
        else ''Natural pitch variation and prosody detected'')"
  by (simp add: predict_explanation predict_locals_def Let_def)

text \<open>
  Claim C8. For every feature set the returned explanation is a non-empty string, in the
  \<open>AI_GENERATED\<close> branch (the accumulated list always holds the pitch note, so the join
  is non-empty) and in the \<open>HUMAN\<close> branch (two non-empty literals).
\<close>

theorem explanation_never_empty:
  "snd (snd (predict f)) \<noteq> ''''
   \<and> snd (snd (predict f)) =
       (if fst (predict f) = AI_GENERATED
        then join '' | '' (take 3 (explanations (run_rules f)))
        else if human_traits f \<noteq> []
             then ''Natural speech characteristics: '' @ join '', '' (human_traits f)
             else ''Natural pitch variation and prosody detected'')"
proof (cases "ai_probability f > 0.5")
  case True
  have "join '' | '' (take 3 (accumulated_notes f)) \<noteq> []"
    using accumulated_notes_nonempty [of f] take3_nonempty [of "accumulated_notes f"]
    by (intro join_nonempty) simp_all
  with True show ?thesis
    by (simp add: ai_explanation predict_label predict_locals_label explanations_run_rules)
next
  case False
  then show ?thesis
    by (simp add: human_explanation predict_label predict_locals_label)
qed

lemma join_Cons: "join sep (x # ys) = x @ (if ys = [] then [] else sep @ join sep ys)"
  by (cases ys) simp_all

lemma join_take3_not_fallback:
  "join '' | '' (take 3 (accumulated_notes f)) \<noteq> ''Multiple synthetic audio patterns detected''"
  unfolding accumulated_notes_def by (simp add: join_Cons)

lemma string_of_nat_digit: "n < 10 \<Longrightarrow> string_of_nat n = [digit_char n]"
  by (subst string_of_nat.simps) simp

lemma string_of_nat_25: "string_of_nat 25 = ''25''"
proof -
  have "string_of_nat 25 = string_of_nat 2 @ [digit_char 5]"
    by (subst string_of_nat.simps) simp
  then show ?thesis by (simp add: string_of_nat_digit digit_char_def)
qed

lemma string_of_nat_0: "string_of_nat 0 = ''0''"
  by (simp add: string_of_nat_digit digit_char_def)

lemma format_25: "format_f 1 25 = ''25.0''"
proof -
  have "round_half_even (\<bar>25\<bar> * 10 ^ 1) = 250"
    using round_half_even_of_int [of 250] by simp
  then have n: "nat (round_half_even (\<bar>25\<bar> * 10 ^ 1)) = 250" by simp
  show ?thesis
    unfolding format_f_def Let_def n
    by (simp add: string_of_nat_25 string_of_nat_0 zero_pad_def)
qed

lemma format_25_Suc: "format_f (Suc 0) 25 = ''25.0''"
  using format_25 by simp

lemma string_of_nat_10: "string_of_nat 10 = ''10''"
proof -
  have "string_of_nat 10 = string_of_nat 1 @ [digit_char 0]"
    by (subst string_of_nat.simps) simp
  then show ?thesis by (simp add: string_of_nat_digit digit_char_def)
qed

lemma string_of_nat_20: "string_of_nat 20 = ''20''"
proof -
  have "string_of_nat 20 = string_of_nat 2 @ [digit_char 0]"
    by (subst string_of_nat.simps) simp
  then show ?thesis by (simp add: string_of_nat_digit digit_char_def)
qed

lemma format_jitter: "format_f 3 (1/100) = ''0.010''"
proof -
  have "round_half_even (\<bar>1/100\<bar> * 10 ^ 3) = 10"
    using round_half_even_of_int [of 10] by simp
  then have n: "nat (round_half_even (\<bar>1/100\<bar> * 10 ^ 3)) = 10" by simp
  show ?thesis
    unfolding format_f_def Let_def n
    by (simp add: string_of_nat_0 string_of_nat_10 zero_pad_def)
qed

lemma format_shimmer: "format_f 3 (1/50) = ''0.020''"
proof -
  have "round_half_even (\<bar>1/50\<bar> * 10 ^ 3) = 20"
    using round_half_even_of_int [of 20] by simp
  then have n: "nat (round_half_even (\<bar>1/50\<bar> * 10 ^ 3)) = 20" by simp
  show ?thesis
    unfolding format_f_def Let_def n
    by (simp add: string_of_nat_0 string_of_nat_20 zero_pad_def)
qed

lemma ai_probability_example: "ai_probability natural_pitch_clear_voice = 0.86"
proof -
  have "score (run_rules natural_pitch_clear_voice) = 0.45"
    by (simp add: score_run_rules natural_pitch_clear_voice_def)
  then show ?thesis by (simp add: ai_probability_def Let_def)
qed

lemma accumulated_example:
  "accumulated_notes natural_pitch_clear_voice =
     [''Natural pitch variation (std: 25.0Hz)'', ''Perfect pitch timing (jitter: 0.010)'',
      ''Uniform amplitude (shimmer: 0.020)'', ''Synthetic clarity (HNR: 25.0dB)'']"
  by (simp add: accumulated_notes_def later_notes_def natural_pitch_clear_voice_def
      format_25_Suc format_jitter format_shimmer)

lemma positive_example:
  "positive_indicator_notes natural_pitch_clear_voice =
     [''Perfect pitch timing (jitter: 0.010)'',
      ''Uniform amplitude (shimmer: 0.020)'', ''Synthetic clarity (HNR: 25.0dB)'']"
  by (simp add: positive_indicator_notes_def later_notes_def natural_pitch_clear_voice_def
      format_25_Suc format_jitter format_shimmer)

text \<open>
  Claim C5, as stated, fails: for \<open>natural_pitch_clear_voice\<close> the result is
  \<open>AI_GENERATED\<close> and the explanation starts with the note "Natural pitch variation",
  which the else-branch of the pitch rule appended and which is no positive indicator; the
  third positive indicator ("Synthetic clarity") is pushed out of the first three.
\<close>

theorem ai_explanation_leads_with_natural_pitch_note:
  "fst (predict natural_pitch_clear_voice) = AI_GENERATED
   \<and> snd (snd (predict natural_pitch_clear_voice)) =
       ''Natural pitch variation (std: 25.0Hz) | Perfect pitch timing (jitter: 0.010) | Uniform amplitude (shimmer: 0.020)''
   \<and> claimed_ai_explanation natural_pitch_clear_voice =
       ''Perfect pitch timing (jitter: 0.010) | Uniform amplitude (shimmer: 0.020) | Synthetic clarity (HNR: 25.0dB)''
   \<and> snd (snd (predict natural_pitch_clear_voice)) \<noteq>
       claimed_ai_explanation natural_pitch_clear_voice"
proof -
  have p: "ai_probability natural_pitch_clear_voice > 0.5"
    by (simp add: ai_probability_example)
  have 1: "fst (predict natural_pitch_clear_voice) = AI_GENERATED"
    using p by (simp add: predict_label predict_locals_label)
  have 2: "snd (snd (predict natural_pitch_clear_voice)) =
       ''Natural pitch variation (std: 25.0Hz) | Perfect pitch timing (jitter: 0.010) | Uniform amplitude (shimmer: 0.020)''"
    unfolding ai_explanation [OF p] accumulated_example by simp
  have 3: "claimed_ai_explanation natural_pitch_clear_voice =
       ''Perfect pitch timing (jitter: 0.010) | Uniform amplitude (shimmer: 0.020) | Synthetic clarity (HNR: 25.0dB)''"
    unfolding claimed_ai_explanation_def positive_example by simp
  have 4: "snd (snd (predict natural_pitch_clear_voice)) \<noteq>
       claimed_ai_explanation natural_pitch_clear_voice"
    unfolding 2 3 by simp
  from 1 2 3 4 show ?thesis by (intro conjI)
qed

text \<open>
  Claim C5, amended. For every feature set classified \<open>AI_GENERATED\<close> the explanation
  is the first three accumulated notes joined with \<open>" | "\<close>, where the accumulated notes
  are the pitch note (monotone or natural, whichever branch ran) followed by the notes of
  the later rules that fired. The list is never empty, and the fallback string is never
  returned.
\<close>

theorem ai_explanation_first_three_accumulated:
  assumes "fst (predict f) = AI_GENERATED"
  shows "snd (snd (predict f)) = join '' | '' (take 3 (accumulated_notes f))
         \<and> explanations (run_rules f) = accumulated_notes f
         \<and> accumulated_notes f \<noteq> []
         \<and> snd (snd (predict f)) \<noteq> ''Multiple synthetic audio patterns detected''"
proof -
  have p: "ai_probability f > 0.5"
    using assms by (simp add: predict_label predict_locals_label split: if_splits)
  have 1: "snd (snd (predict f)) = join '' | '' (take 3 (accumulated_notes f))"
    by (rule ai_explanation [OF p])
  have 2: "accumulated_notes f \<noteq> []"
    using accumulated_notes_nonempty [of f] by simp
  have 3: "join '' | '' (take 3 (accumulated_notes f)) \<noteq>
             ''Multiple synthetic audio patterns detected''"
    by (rule join_take3_not_fallback)
  from 1 2 3 explanations_run_rules [of f] show ?thesis by simp
qed

text \<open>The amended claim C5 at \<open>natural_pitch_clear_voice\<close>, which is classified \<open>AI_GENERATED\<close>.\<close>

theorem ai_explanation_first_three_accumulated_witness:
  "fst (predict natural_pitch_clear_voice) = AI_GENERATED
   \<and> snd (snd (predict natural_pitch_clear_voice)) =
       join '' | '' (take 3 (accumulated_notes natural_pitch_clear_voice))
   \<and> accumulated_notes natural_pitch_clear_voice \<noteq> []"
proof -
  have p: "ai_probability natural_pitch_clear_voice > 0.5"
    by (simp add: ai_probability_example)
  have l: "fst (predict natural_pitch_clear_voice) = AI_GENERATED"
    using p by (simp add: predict_label predict_locals_label)
  from ai_explanation_first_three_accumulated [OF l] l show ?thesis by simp
qed

section \<open>Properties of the double-precision model\<close>

subsection \<open>Rounding to the nearest double\<close>

lemma round_half_even_error: "\<bar>of_int (round_half_even x) - x\<bar> \<le> 1/2"
proof -
  have "of_int \<lfloor>x\<rfloor> \<le> x" "x < of_int \<lfloor>x\<rfloor> + 1" by linarith+
  then show ?thesis by (auto simp: round_half_even_def Let_def)
qed

lemma round_half_even_near:
  assumes "\<bar>x - of_int m\<bar> < 1/2"
  shows "round_half_even x = m"
proof -
  have "\<bar>of_int (round_half_even x) - x\<bar> \<le> 1/2" by (rule round_half_even_error)
  with assms have "\<bar>(of_int (round_half_even x) :: real) - of_int m\<bar> < 1" by linarith
  then have "\<bar>(of_int (round_half_even x - m) :: real)\<bar> < 1" by simp
  then have "\<bar>round_half_even x - m\<bar> < 1" by linarith
  then show ?thesis by simp
qed

lemma ulp_le:
  assumes "x \<noteq> 0"
  shows "(2::real) powr (of_int (binade x) - 52) \<le> \<bar>x\<bar> / 2 ^ 52"
proof -
  have pos: "0 < \<bar>x\<bar>" using assms by simp
  have "of_int (binade x) \<le> log 2 \<bar>x\<bar>" by (simp add: binade_def)
  then have "(2::real) powr (of_int (binade x)) \<le> 2 powr (log 2 \<bar>x\<bar>)" by simp
  also have "\<dots> = \<bar>x\<bar>" using pos by simp
  finally have 1: "(2::real) powr (of_int (binade x)) \<le> \<bar>x\<bar>" .
  have "(2::real) powr (of_int (binade x) - 52) = 2 powr (of_int (binade x)) / 2 powr 52"
    by (simp add: powr_diff)
  also have "(2::real) powr 52 = 2 ^ 52" by simp
  finally show ?thesis using 1 by (simp add: divide_right_mono)
qed

text \<open>The relative error of a rounding is at most \<open>2\<^sup>-\<^sup>5\<^sup>3\<close>.\<close>

lemma fl_error: "\<bar>fl x - x\<bar> \<le> \<bar>x\<bar> / 2 ^ 53"
proof (cases "x = 0")
  case True
  then show ?thesis by (simp add: fl_def)
next
  case False
  define u :: real where "u = 2 powr (of_int (binade x) - 52)"
  have u: "0 < u" by (simp add: u_def)
  have "fl x - x = (of_int (round_half_even (x / u)) - x / u) * u"
    using False u by (simp add: fl_def Let_def u_def [symmetric] field_simps)
  then have "\<bar>fl x - x\<bar> = \<bar>of_int (round_half_even (x / u)) - x / u\<bar> * u"
    using u by (simp add: abs_mult)
  also have "\<dots> \<le> (1/2) * u"
    using round_half_even_error [of "x / u"] u by (intro mult_right_mono) simp_all
  also have "\<dots> \<le> (1/2) * (\<bar>x\<bar> / 2 ^ 52)"
    using ulp_le [OF False] unfolding u_def by simp
  finally show ?thesis by simp
qed

lemma fl_near:
  assumes "\<bar>x\<bar> \<le> 2"
  shows "\<bar>fl x - x\<bar> \<le> 1 / 4000000000000000"
proof -
  have "\<bar>fl x - x\<bar> \<le> \<bar>x\<bar> / 2 ^ 53" by (rule fl_error)
  also have "\<dots> \<le> 2 / 2 ^ 53" using assms by (simp add: divide_right_mono)
  also have "\<dots> \<le> 1 / 4000000000000000" by simp
  finally show ?thesis .
qed

lemma fl_bounds:
  assumes "0 \<le> x"
  shows "x - x / 2 ^ 53 \<le> fl x \<and> fl x \<le> x + x / 2 ^ 53"
proof -
  define t where "t = x / 2 ^ 53"
  have "\<bar>fl x - x\<bar> \<le> t" using fl_error [of x] assms by (simp add: t_def)
  then have "x - t \<le> fl x \<and> fl x \<le> x + t" by linarith
  then show ?thesis unfolding t_def .
qed

text \<open>
  Evaluation: for \<open>2\<^sup>-\<^sup>m \<le> \<bar>x\<bar> < 2\<^sup>1\<^sup>-\<^sup>m\<close> the nearest double is the nearest multiple of
  \<open>2\<^sup>-\<^sup>5\<^sup>2\<^sup>-\<^sup>m\<close>.
\<close>

lemma binade_unique:
  fixes m :: nat
  assumes "1 \<le> \<bar>x\<bar> * 2 ^ m" "\<bar>x\<bar> * 2 ^ m < 2"
  shows "binade x = - int m"
proof -
  have pos: "0 < \<bar>x\<bar>" using assms(1) by (cases "x = 0") simp_all
  have l: "log 2 (\<bar>x\<bar> * 2 ^ m) = log 2 \<bar>x\<bar> + real m"
    using pos by (simp add: log_mult log_nat_power)
  have "0 \<le> log 2 (\<bar>x\<bar> * 2 ^ m)" using assms(1) by simp
  moreover have "log 2 (\<bar>x\<bar> * 2 ^ m) < log 2 2"
    using assms pos by (subst log_less_cancel_iff) simp_all
  ultimately have "- real m \<le> log 2 \<bar>x\<bar>" "log 2 \<bar>x\<bar> < - real m + 1"
    unfolding l by simp_all
  then show ?thesis unfolding binade_def by (intro floor_unique) simp_all
qed

lemma fl_binade:
  fixes m :: nat
  assumes "1 \<le> \<bar>x\<bar> * 2 ^ m" "\<bar>x\<bar> * 2 ^ m < 2"
  shows "fl x = of_int (round_half_even (x * 2 ^ (52 + m))) / 2 ^ (52 + m)"
proof -
  have nz: "x \<noteq> 0" using assms(1) by auto
  have "(2::real) powr (of_int (binade x) - 52) = 2 powr (- real (52 + m))"
    unfolding binade_unique [OF assms] by (simp add: algebra_simps)
  also have "\<dots> = 1 / 2 ^ (52 + m)"
    by (simp only: powr_minus powr_realpow zero_less_numeral inverse_eq_divide)
  finally have u: "(2::real) powr (of_int (binade x) - 52) = 1 / 2 ^ (52 + m)" .
  show ?thesis using nz by (simp add: fl_def Let_def u)
qed

subsection \<open>The literals and the two extreme paths\<close>

lemma fl_0_25: "fl 0.25 = 1 / 4"
  using fl_binade [of "0.25" 2] by (simp add: round_half_even_def)

lemma fl_0_15: "fl 0.15 = 5404319552844595 / 2 ^ 55"
  using fl_binade [of "0.15" 3] by (simp add: round_half_even_def)

lemma fl_0_2: "fl 0.2 = 3602879701896397 / 2 ^ 54"
  using fl_binade [of "0.2" 3] by (simp add: round_half_even_def)

lemma fl_0_1: "fl 0.1 = 3602879701896397 / 2 ^ 55"
  using fl_binade [of "0.1" 4] by (simp add: round_half_even_def)

lemma fl_0_05: "fl 0.05 = 3602879701896397 / 2 ^ 56"
  using fl_binade [of "0.05" 5] by (simp add: round_half_even_def)

lemma fl_0_8: "fl 0.8 = 3602879701896397 / 2 ^ 52"
  using fl_binade [of "0.8" 1] by (simp add: round_half_even_def)

lemma fl_0_5: "fl 0.5 = 1 / 2"
  using fl_binade [of "0.5" 1] by (simp add: round_half_even_def)

lemma fl_1_0: "fl 1.0 = 1"
  using fl_binade [of "1.0" 0] by (simp add: round_half_even_def)

lemma fl_0_01: "fl 0.01 = 5764607523034235 / 2 ^ 59"
  using fl_binade [of "0.01" 7] by (simp add: round_half_even_def)

lemma fl_0_99: "fl 0.99 = 4458563631096791 / 2 ^ 52"
  using fl_binade [of "0.99" 1] by (simp add: round_half_even_def)

lemma fl_0_4: "fl 0.40 = 3602879701896397 / 2 ^ 53"
  using fl_binade [of "0.40" 2] by (simp add: round_half_even_def)

lemma fl_1_3: "fl 1.30 = 5854679515581645 / 2 ^ 52"
  using fl_binade [of "1.30" 0] by (simp add: round_half_even_def)

lemma fl_0_18: "fl 0.18 = 3242591731706757 / 2 ^ 54"
  using fl_binade [of "0.18" 3] by (simp add: round_half_even_def)

lemma fl_0_82: "fl 0.82 = 7385903388887613 / 2 ^ 53"
  using fl_binade [of "0.82" 1] by (simp add: round_half_even_def)

lemma fl_0_8200000000000001: "fl 0.8200000000000001 = 3692951694443807 / 2 ^ 52"
  using fl_binade [of "0.8200000000000001" 1] by (simp add: round_half_even_def)

lemma fl_0_17999999999999994: "fl 0.17999999999999994 = 810647932926689 / 2 ^ 52"
  using fl_binade [of "0.17999999999999994" 3] by (simp add: round_half_even_def)

lemma fail_pitch: "fl (0 - 5404319552844595 / 2 ^ 55) = - (5404319552844595 / 2 ^ 55)"
  using fl_binade [of "0 - 5404319552844595 / 2 ^ 55" 3] by (simp add: round_half_even_def)

lemma fail_jitter: "fl (- (5404319552844595 / 2 ^ 55) - 5404319552844595 / 2 ^ 55) = - (5404319552844595 / 2 ^ 54)"
  using fl_binade [of "- (5404319552844595 / 2 ^ 55) - 5404319552844595 / 2 ^ 55" 2] by (simp add: round_half_even_def)

lemma fail_shimmer: "fl (- (5404319552844595 / 2 ^ 54) - 3602879701896397 / 2 ^ 55) = - (3602879701896397 / 2 ^ 53)"
  using fl_binade [of "- (5404319552844595 / 2 ^ 54) - 3602879701896397 / 2 ^ 55" 2] by (simp add: round_half_even_def)

lemma fail_product: "fl (- (3602879701896397 / 2 ^ 53) * (3602879701896397 / 2 ^ 52)) = - (1441151880758559 / 2 ^ 52)"
  using fl_binade [of "- (3602879701896397 / 2 ^ 53) * (3602879701896397 / 2 ^ 52)" 2] by (simp add: round_half_even_def)

lemma fail_pre_clamp: "fl (1 / 2 + (- (1441151880758559 / 2 ^ 52))) = 810647932926689 / 2 ^ 52"
  using fl_binade [of "1 / 2 + (- (1441151880758559 / 2 ^ 52))" 3] by (simp add: round_half_even_def)

lemma fail_confidence: "fl (1 - 810647932926689 / 2 ^ 52) = 3692951694443807 / 2 ^ 52"
  using fl_binade [of "1 - 810647932926689 / 2 ^ 52" 1] by (simp add: round_half_even_def)

lemma fire_pitch: "fl (0 + 1 / 4) = 1 / 4"
  using fl_binade [of "0 + 1 / 4" 2] by (simp add: round_half_even_def)

lemma fire_jitter: "fl (1 / 4 + 1 / 4) = 1 / 2"
  using fl_binade [of "1 / 4 + 1 / 4" 1] by (simp add: round_half_even_def)

lemma fire_shimmer: "fl (1 / 2 + 3602879701896397 / 2 ^ 54) = 3152519739159347 / 2 ^ 52"
  using fl_binade [of "1 / 2 + 3602879701896397 / 2 ^ 54" 1] by (simp add: round_half_even_def)

lemma fire_hnr: "fl (3152519739159347 / 2 ^ 52 + 5404319552844595 / 2 ^ 55) = 7656119366529843 / 2 ^ 53"
  using fl_binade [of "3152519739159347 / 2 ^ 52 + 5404319552844595 / 2 ^ 55" 1] by (simp add: round_half_even_def)

lemma fire_flatness: "fl (7656119366529843 / 2 ^ 53 + 3602879701896397 / 2 ^ 55) = 4278419646001971 / 2 ^ 52"
  using fl_binade [of "7656119366529843 / 2 ^ 53 + 3602879701896397 / 2 ^ 55" 1] by (simp add: round_half_even_def)

lemma fire_silence: "fl (4278419646001971 / 2 ^ 52 + 3602879701896397 / 2 ^ 56) = 1"
  using fl_binade [of "4278419646001971 / 2 ^ 52 + 3602879701896397 / 2 ^ 56" 1] by (simp add: round_half_even_def)

lemma fire_product: "fl (1 * (3602879701896397 / 2 ^ 52)) = 3602879701896397 / 2 ^ 52"
  using fl_binade [of "1 * (3602879701896397 / 2 ^ 52)" 1] by (simp add: round_half_even_def)

lemma fire_pre_clamp: "fl (1 / 2 + 3602879701896397 / 2 ^ 52) = 5854679515581645 / 2 ^ 52"
  using fl_binade [of "1 / 2 + 3602879701896397 / 2 ^ 52" 0] by (simp add: round_half_even_def)

lemma no_rule_fires_steps:
  assumes "no_rule_fires f"
  shows "pitch_step f s = fl (s - fl 0.15)" "jitter_step f s = fl (s - fl 0.15)"
    "shimmer_step f s = fl (s - fl 0.1)" "hnr_step f s = s" "flatness_step f s = s"
    "silence_step f s = s"
  using assms
  by (simp_all add: no_rule_fires_def pitch_step_def jitter_step_def shimmer_step_def
      hnr_step_def flatness_step_def silence_step_def)

lemma every_rule_fires_steps:
  assumes "every_rule_fires f"
  shows "pitch_step f s = fl (s + fl 0.25)" "jitter_step f s = fl (s + fl 0.25)"
    "shimmer_step f s = fl (s + fl 0.2)" "hnr_step f s = fl (s + fl 0.15)"
    "flatness_step f s = fl (s + fl 0.1)" "silence_step f s = fl (s + fl 0.05)"
  using assms
  by (simp_all add: every_rule_fires_def pitch_step_def jitter_step_def shimmer_step_def
      hnr_step_def flatness_step_def silence_step_def)

lemma score_f64_no_rule:
  assumes "no_rule_fires f"
  shows "score_f64 f = - (3602879701896397 / 2 ^ 53)"
proof -
  note st = no_rule_fires_steps [OF assms]
  have 1: "pitch_step f 0 = - (5404319552844595 / 2 ^ 55)"
    unfolding st fl_0_15 by (rule fail_pitch)
  have 2: "jitter_step f (- (5404319552844595 / 2 ^ 55)) = - (5404319552844595 / 2 ^ 54)"
    unfolding st fl_0_15 by (rule fail_jitter)
  have 3: "shimmer_step f (- (5404319552844595 / 2 ^ 54)) = - (3602879701896397 / 2 ^ 53)"
    unfolding st fl_0_1 by (rule fail_shimmer)
  have "score_f64 f = hnr_step f (shimmer_step f (jitter_step f (pitch_step f 0)))"
    unfolding score_f64_def st(5,6) ..
  then show ?thesis unfolding 1 2 3 st(4) .
qed

lemma pre_clamp_f64_no_rule:
  assumes "no_rule_fires f"
  shows "pre_clamp_f64 f = 810647932926689 / 2 ^ 52"
proof -
  show ?thesis
    unfolding pre_clamp_f64_def score_f64_no_rule [OF assms] fl_0_8 fl_0_5 fail_product
    by (rule fail_pre_clamp)
qed

lemma score_f64_every_rule:
  assumes "every_rule_fires f"
  shows "score_f64 f = 1"
proof -
  note st = every_rule_fires_steps [OF assms]
  have 1: "pitch_step f 0 = 1 / 4"
    unfolding st fl_0_25 by (rule fire_pitch)
  have 2: "jitter_step f (1 / 4) = 1 / 2"
    unfolding st fl_0_25 by (rule fire_jitter)
  have 3: "shimmer_step f (1 / 2) = 3152519739159347 / 2 ^ 52"
    unfolding st fl_0_2 by (rule fire_shimmer)
  have 4: "hnr_step f (3152519739159347 / 2 ^ 52) = 7656119366529843 / 2 ^ 53"
    unfolding st fl_0_15 by (rule fire_hnr)
  have 5: "flatness_step f (7656119366529843 / 2 ^ 53) = 4278419646001971 / 2 ^ 52"
    unfolding st fl_0_1 by (rule fire_flatness)
  have 6: "silence_step f (4278419646001971 / 2 ^ 52) = 1"
    unfolding st fl_0_05 by (rule fire_silence)
  show ?thesis unfolding score_f64_def 1 2 3 4 5 6 ..
qed

lemma pre_clamp_f64_every_rule:
  assumes "every_rule_fires f"
  shows "pre_clamp_f64 f = 5854679515581645 / 2 ^ 52"
proof -
  show ?thesis
    unfolding pre_clamp_f64_def score_f64_every_rule [OF assms] fl_0_8 fl_0_5 fire_product
    by (rule fire_pre_clamp)
qed

lemma threshold_bounds:
  "19 < fl 20.0" "fl 20.0 < 21" "9 < fl 10.0" "fl 10.0 < 11"
  "0 < fl PITCH_STD_THRESHOLD" "fl PITCH_STD_THRESHOLD < 21"
  "0 < fl JITTER_THRESHOLD" "fl JITTER_THRESHOLD < 1/16"
  "0 < fl SHIMMER_THRESHOLD" "fl SHIMMER_THRESHOLD < 1/8"
  "0 < fl 0.02" "fl 0.02 < 1/2" "0 < fl 0.01" "fl 0.01 < 1/2"
  using fl_bounds [of "20.0"] fl_bounds [of "10.0"] fl_bounds [of "0.03"]
    fl_bounds [of "0.05"] fl_bounds [of "0.02"] fl_bounds [of "0.01"]
  by (simp_all add: PITCH_STD_THRESHOLD_def JITTER_THRESHOLD_def SHIMMER_THRESHOLD_def)

lemma no_rule_fires_all_fail: "no_rule_fires all_fail"
  using threshold_bounds by (simp add: no_rule_fires_def all_fail_def)

lemma every_rule_fires_all_fire: "every_rule_fires all_fire"
  using threshold_bounds by (simp add: every_rule_fires_def all_fire_def)

subsection \<open>Accumulated rounding error\<close>

text \<open>
  Every rounding of a value of magnitude at most 2 moves it by at most \<open>2.5 * 10\<^sup>-\<^sup>1\<^sup>6\<close>.
  Over the six rules the score stays within \<open>3 * 10\<^sup>-\<^sup>1\<^sup>5\<close> of the sum of the decimal
  deltas.
\<close>

lemma fl_add_error:
  assumes "\<bar>s - e\<bar> \<le> d" "d \<le> 1/10" "\<bar>e\<bar> \<le> 5/4" "\<bar>c\<bar> \<le> 1/4"
  shows "\<bar>fl (s + fl c) - (e + c)\<bar> \<le> d + 2 / 4000000000000000"
proof -
  have c: "\<bar>fl c - c\<bar> \<le> 1 / 4000000000000000"
    using assms(4) by (intro fl_near) simp
  have "\<bar>s + fl c\<bar> \<le> 2" using assms c by linarith
  then have "\<bar>fl (s + fl c) - (s + fl c)\<bar> \<le> 1 / 4000000000000000" by (rule fl_near)
  then show ?thesis using assms(1) c by linarith
qed

lemma fl_sub_error:
  assumes "\<bar>s - e\<bar> \<le> d" "d \<le> 1/10" "\<bar>e\<bar> \<le> 5/4" "\<bar>c\<bar> \<le> 1/4"
  shows "\<bar>fl (s - fl c) - (e - c)\<bar> \<le> d + 2 / 4000000000000000"
proof -
  have c: "\<bar>fl c - c\<bar> \<le> 1 / 4000000000000000"
    using assms(4) by (intro fl_near) simp
  have "\<bar>s - fl c\<bar> \<le> 2" using assms c by linarith
  then have "\<bar>fl (s - fl c) - (s - fl c)\<bar> \<le> 1 / 4000000000000000" by (rule fl_near)
  then show ?thesis using assms(1) c by linarith
qed

lemma pitch_step_error:
  assumes "\<bar>s - e\<bar> \<le> d" "d \<le> 1/10" "\<bar>e\<bar> \<le> 5/4"
  shows "\<bar>pitch_step f s
           - (e + (if pitch_std f < fl PITCH_STD_THRESHOLD then 5/20 else - (3/20)))\<bar>
         \<le> d + 2 / 4000000000000000"
  using fl_add_error [OF assms, of "0.25"] fl_sub_error [OF assms, of "0.15"]
  by (simp add: pitch_step_def)

lemma jitter_step_error:
  assumes "\<bar>s - e\<bar> \<le> d" "d \<le> 1/10" "\<bar>e\<bar> \<le> 5/4"
  shows "\<bar>jitter_step f s
           - (e + (if jitter f < fl JITTER_THRESHOLD then 5/20 else - (3/20)))\<bar>
         \<le> d + 2 / 4000000000000000"
  using fl_add_error [OF assms, of "0.25"] fl_sub_error [OF assms, of "0.15"]
  by (simp add: jitter_step_def)

lemma shimmer_step_error:
  assumes "\<bar>s - e\<bar> \<le> d" "d \<le> 1/10" "\<bar>e\<bar> \<le> 5/4"
  shows "\<bar>shimmer_step f s
           - (e + (if shimmer f < fl SHIMMER_THRESHOLD then 4/20 else - (2/20)))\<bar>
         \<le> d + 2 / 4000000000000000"
  using fl_add_error [OF assms, of "0.2"] fl_sub_error [OF assms, of "0.1"]
  by (simp add: shimmer_step_def)

lemma hnr_step_error:
  assumes "\<bar>s - e\<bar> \<le> d" "d \<le> 1/10" "\<bar>e\<bar> \<le> 5/4"
  shows "\<bar>hnr_step f s
           - (e + (if hnr f > fl 20.0 then 3/20 else if hnr f < fl 10.0 then 2/20 else 0))\<bar>
         \<le> d + 2 / 4000000000000000"
  using fl_add_error [OF assms, of "0.15"] fl_add_error [OF assms, of "0.1"] assms(1)
  by (simp add: hnr_step_def)

lemma flatness_step_error:
  assumes "\<bar>s - e\<bar> \<le> d" "d \<le> 1/10" "\<bar>e\<bar> \<le> 5/4"
  shows "\<bar>flatness_step f s - (e + (if spectral_flatness f < fl 0.01 then 2/20 else 0))\<bar>
         \<le> d + 2 / 4000000000000000"
  using fl_add_error [OF assms, of "0.1"] assms(1)
  by (simp add: flatness_step_def)

lemma silence_step_error:
  assumes "\<bar>s - e\<bar> \<le> d" "d \<le> 1/10" "\<bar>e\<bar> \<le> 5/4"
  shows "\<bar>silence_step f s - (e + (if silence_ratio f < fl 0.02 then 1/20 else 0))\<bar>
         \<le> d + 2 / 4000000000000000"
  using fl_add_error [OF assms, of "0.05"] assms(1)
  by (simp add: silence_step_def)

lemma score_f64_error:
  "\<bar>score_f64 f - of_int (twentieths_f64 f) / 20\<bar> \<le> 3 / 1000000000000000"
proof -
  define a :: real where "a = (if pitch_std f < fl PITCH_STD_THRESHOLD then 5/20 else - (3/20))"
  define b :: real where "b = (if jitter f < fl JITTER_THRESHOLD then 5/20 else - (3/20))"
  define c :: real where "c = (if shimmer f < fl SHIMMER_THRESHOLD then 4/20 else - (2/20))"
  define d :: real where
    "d = (if hnr f > fl 20.0 then 3/20 else if hnr f < fl 10.0 then 2/20 else 0)"
  define e :: real where "e = (if spectral_flatness f < fl 0.01 then 2/20 else 0)"
  define g :: real where "g = (if silence_ratio f < fl 0.02 then 1/20 else 0)"
  define s1 where "s1 = pitch_step f 0"
  define s2 where "s2 = jitter_step f s1"
  define s3 where "s3 = shimmer_step f s2"
  define s4 where "s4 = hnr_step f s3"
  define s5 where "s5 = flatness_step f s4"
  define s6 where "s6 = silence_step f s5"
  have bnd: "- (3/20) \<le> a" "a \<le> 1/4" "- (3/20) \<le> b" "b \<le> 1/4" "- (1/10) \<le> c" "c \<le> 1/5"
    "0 \<le> d" "d \<le> 3/20" "0 \<le> e" "e \<le> 1/10" "0 \<le> g" "g \<le> 1/20"
    by (simp_all add: a_def b_def c_def d_def e_def g_def)
  have 1: "\<bar>s1 - (0 + a)\<bar> \<le> 0 + 2 / 4000000000000000"
    unfolding s1_def a_def by (rule pitch_step_error) simp_all
  have 2: "\<bar>s2 - (0 + a + b)\<bar> \<le> 0 + 2 / 4000000000000000 + 2 / 4000000000000000"
    unfolding s2_def b_def by (rule jitter_step_error [OF 1]) (use bnd in simp_all)
  have 3: "\<bar>s3 - (0 + a + b + c)\<bar>
      \<le> 0 + 2 / 4000000000000000 + 2 / 4000000000000000 + 2 / 4000000000000000"
    unfolding s3_def c_def
    by (rule shimmer_step_error [OF 2]) (use bnd in \<open>simp, linarith\<close>)
  have 4: "\<bar>s4 - (0 + a + b + c + d)\<bar>
      \<le> 0 + 2 / 4000000000000000 + 2 / 4000000000000000 + 2 / 4000000000000000
         + 2 / 4000000000000000"
    unfolding s4_def d_def
    by (rule hnr_step_error [OF 3]) (use bnd in \<open>simp, linarith\<close>)
  have 5: "\<bar>s5 - (0 + a + b + c + d + e)\<bar>
      \<le> 0 + 2 / 4000000000000000 + 2 / 4000000000000000 + 2 / 4000000000000000
         + 2 / 4000000000000000 + 2 / 4000000000000000"
    unfolding s5_def e_def
    by (rule flatness_step_error [OF 4]) (use bnd in \<open>simp, linarith\<close>)
  have 6: "\<bar>s6 - (0 + a + b + c + d + e + g)\<bar>
      \<le> 0 + 2 / 4000000000000000 + 2 / 4000000000000000 + 2 / 4000000000000000
         + 2 / 4000000000000000 + 2 / 4000000000000000 + 2 / 4000000000000000"
    unfolding s6_def g_def
    by (rule silence_step_error [OF 5]) (use bnd in \<open>simp, linarith\<close>)
  have s: "score_f64 f = s6"
    by (simp add: score_f64_def s6_def s5_def s4_def s3_def s2_def s1_def)
  have t: "of_int (twentieths_f64 f) / 20 = a + b + c + d + e + g"
    by (simp add: twentieths_f64_def a_def b_def c_def d_def e_def g_def)
  show ?thesis unfolding s t using 6 by simp
qed

lemma twentieths_f64_range:
  "- 8 \<le> twentieths_f64 f" "twentieths_f64 f \<le> 20"
  "(twentieths_f64 f = - 8) = no_rule_fires f"
  "(twentieths_f64 f = 20) = every_rule_fires f"
proof -
  define a :: int where "a = (if pitch_std f < fl PITCH_STD_THRESHOLD then 5 else - 3)"
  define b :: int where "b = (if jitter f < fl JITTER_THRESHOLD then 5 else - 3)"
  define c :: int where "c = (if shimmer f < fl SHIMMER_THRESHOLD then 4 else - 2)"
  define d :: int where "d = (if hnr f > fl 20.0 then 3 else if hnr f < fl 10.0 then 2 else 0)"
  define e :: int where "e = (if spectral_flatness f < fl 0.01 then 2 else 0)"
  define g :: int where "g = (if silence_ratio f < fl 0.02 then 1 else 0)"
  have t: "twentieths_f64 f = a + b + c + d + e + g"
    by (simp add: twentieths_f64_def a_def b_def c_def d_def e_def g_def)
  have bnd: "- 3 \<le> a" "a \<le> 5" "- 3 \<le> b" "b \<le> 5" "- 2 \<le> c" "c \<le> 4"
    "0 \<le> d" "d \<le> 3" "0 \<le> e" "e \<le> 2" "0 \<le> g" "g \<le> 1"
    by (simp_all add: a_def b_def c_def d_def e_def g_def)
  show "- 8 \<le> twentieths_f64 f" "twentieths_f64 f \<le> 20"
    unfolding t using bnd by linarith+
  have lo: "(a + b + c + d + e + g = - 8) =
      (a = - 3 \<and> b = - 3 \<and> c = - 2 \<and> d = 0 \<and> e = 0 \<and> g = 0)"
    using bnd by linarith
  have hi: "(a + b + c + d + e + g = 20) =
      (a = 5 \<and> b = 5 \<and> c = 4 \<and> d = 3 \<and> e = 2 \<and> g = 1)"
    using bnd by linarith
  have a1: "(a = - 3) = (fl PITCH_STD_THRESHOLD \<le> pitch_std f)"
    "(a = 5) = (pitch_std f < fl PITCH_STD_THRESHOLD)"
    by (simp_all add: a_def not_less)
  have b1: "(b = - 3) = (fl JITTER_THRESHOLD \<le> jitter f)"
    "(b = 5) = (jitter f < fl JITTER_THRESHOLD)"
    by (simp_all add: b_def not_less)
  have c1: "(c = - 2) = (fl SHIMMER_THRESHOLD \<le> shimmer f)"
    "(c = 4) = (shimmer f < fl SHIMMER_THRESHOLD)"
    by (simp_all add: c_def not_less)
  have d1: "(d = 0) = (fl 10.0 \<le> hnr f \<and> hnr f \<le> fl 20.0)" "(d = 3) = (hnr f > fl 20.0)"
    by (auto simp: d_def)
  have e1: "(e = 0) = (fl 0.01 \<le> spectral_flatness f)" "(e = 2) = (spectral_flatness f < fl 0.01)"
    by (simp_all add: e_def not_less)
  have g1: "(g = 0) = (fl 0.02 \<le> silence_ratio f)" "(g = 1) = (silence_ratio f < fl 0.02)"
    by (simp_all add: g_def not_less)
  show "(twentieths_f64 f = - 8) = no_rule_fires f"
    unfolding t lo a1 b1 c1 d1 e1 g1 no_rule_fires_def by (simp only: conj_assoc)
  show "(twentieths_f64 f = 20) = every_rule_fires f"
    unfolding t hi a1 b1 c1 d1 e1 g1 every_rule_fires_def ..
qed

lemma pre_clamp_f64_error:
  "\<bar>pre_clamp_f64 f - of_int (50 + 4 * twentieths_f64 f) / 100\<bar> \<le> 4 / 1000000000000000"
proof -
  define s where "s = score_f64 f"
  define e :: real where "e = of_int (twentieths_f64 f) / 20"
  have se: "\<bar>s - e\<bar> \<le> 3 / 1000000000000000"
    unfolding s_def e_def by (rule score_f64_error)
  have "- 8 \<le> (of_int (twentieths_f64 f) :: real)" "(of_int (twentieths_f64 f) :: real) \<le> 20"
    using twentieths_f64_range(1,2) [of f] by simp_all
  then have e: "- (2/5) \<le> e" "e \<le> 1" by (simp_all add: e_def)
  then have s: "\<bar>s\<bar> \<le> 2" using se by linarith
  define w where "w = fl 0.8 - 0.8"
  have w: "\<bar>w\<bar> \<le> 1 / 4000000000000000" unfolding w_def by (rule fl_near) simp
  have "\<bar>s * w\<bar> \<le> 2 * (1 / 4000000000000000)"
    unfolding abs_mult using s w by (intro mult_mono) simp_all
  moreover have "s * fl 0.8 = s * w + s * (4/5)"
    unfolding w_def by (simp add: right_diff_distrib)
  ultimately have prod: "\<bar>s * fl 0.8 - e * (4/5)\<bar> \<le> 3 / 1000000000000000"
    using se by linarith
  define m where "m = fl (s * fl 0.8)"
  have "\<bar>s * fl 0.8\<bar> \<le> 2" using prod e by linarith
  then have "\<bar>m - s * fl 0.8\<bar> \<le> 1 / 4000000000000000"
    unfolding m_def by (rule fl_near)
  with prod have m: "\<bar>m - e * (4/5)\<bar> \<le> 13 / 4000000000000000" by linarith
  have "\<bar>1 / 2 + m\<bar> \<le> 2" using m e by linarith
  then have "\<bar>fl (1 / 2 + m) - (1 / 2 + m)\<bar> \<le> 1 / 4000000000000000"
    by (rule fl_near)
  with m have r: "\<bar>fl (1 / 2 + m) - (1 / 2 + e * (4/5))\<bar> \<le> 4 / 1000000000000000"
    by linarith
  have eq: "1 / 2 + e * (4/5) = of_int (50 + 4 * twentieths_f64 f) / 100"
    by (simp add: e_def)
  have pc: "pre_clamp_f64 f = fl (1 / 2 + m)"
    unfolding pre_clamp_f64_def m_def s_def fl_0_5 ..
  from r show ?thesis unfolding pc eq .
qed

subsection \<open>Probability and confidence\<close>

lemma pre_clamp_f64_range:
  "17 / 100 \<le> pre_clamp_f64 f" "pre_clamp_f64 f \<le> 131 / 100"
proof -
  have "- 8 \<le> (of_int (twentieths_f64 f) :: real)" "(of_int (twentieths_f64 f) :: real) \<le> 20"
    using twentieths_f64_range(1,2) [of f] by simp_all
  then have "18 / 100 \<le> (of_int (50 + 4 * twentieths_f64 f) :: real) / 100"
    "(of_int (50 + 4 * twentieths_f64 f) :: real) / 100 \<le> 130 / 100"
    by simp_all
  then show "17 / 100 \<le> pre_clamp_f64 f" "pre_clamp_f64 f \<le> 131 / 100"
    using pre_clamp_f64_error [of f] by linarith+
qed

lemma clamp_bounds: "fl 0.01 < 17 / 100" "\<bar>fl 0.99 - 99 / 100\<bar> \<le> 1 / 4000000000000000"
  using fl_bounds [of "0.01"] fl_near [of "0.99"] by simp_all

lemma lower_clamp_inert: "ai_probability_f64 f = min (fl 0.99) (pre_clamp_f64 f)"
proof -
  have "fl 0.01 \<le> fl 0.99" using clamp_bounds by linarith
  moreover have "fl 0.01 \<le> pre_clamp_f64 f"
    using clamp_bounds(1) pre_clamp_f64_range(1) [of f] by linarith
  ultimately show ?thesis by (simp add: ai_probability_f64_def)
qed

lemma ai_probability_f64_error:
  "\<bar>ai_probability_f64 f - of_int (min 99 (50 + 4 * twentieths_f64 f)) / 100\<bar>
     \<le> 4 / 1000000000000000"
proof -
  define k where "k = 50 + 4 * twentieths_f64 f"
  have p: "\<bar>pre_clamp_f64 f - of_int k / 100\<bar> \<le> 4 / 1000000000000000"
    unfolding k_def by (rule pre_clamp_f64_error)
  have m: "(of_int (min 99 k) :: real) / 100 = min (99 / 100) (of_int k / 100)"
    by (simp add: min_def)
  define q :: real where "q = of_int k / 100"
  define c where "c = fl 0.99"
  define x where "x = pre_clamp_f64 f"
  have "\<bar>x - q\<bar> \<le> 4 / 1000000000000000" "\<bar>c - 99 / 100\<bar> \<le> 1 / 4000000000000000"
    using p clamp_bounds(2) by (simp_all add: x_def q_def c_def)
  then have "\<bar>min c x - min (99 / 100) q\<bar> \<le> 4 / 1000000000000000"
    by linarith
  then show ?thesis
    unfolding lower_clamp_inert k_def [symmetric] m x_def q_def c_def .
qed

lemma confidence_f64_hundredths:
  "\<exists>m::int. 50 \<le> m \<and> m \<le> 99
     \<and> \<bar>confidence_f64 f - of_int m / 100\<bar> \<le> 1 / 100000000000000"
proof -
  define j where "j = min 99 (50 + 4 * twentieths_f64 f)"
  define p where "p = ai_probability_f64 f"
  have pj: "\<bar>p - of_int j / 100\<bar> \<le> 4 / 1000000000000000"
    unfolding p_def j_def by (rule ai_probability_f64_error)
  have j: "18 \<le> j" "j \<le> 99"
    using twentieths_f64_range(1) [of f] by (simp_all add: j_def)
  show ?thesis
  proof (cases "p > fl 0.5")
    case True
    then have c: "confidence_f64 f = p" by (simp add: confidence_f64_def p_def)
    have "1 / 2 < p" using True unfolding fl_0_5 .
    then have "(49::real) < of_int j" using pj by linarith
    then have "49 < j" by linarith
    then have "50 \<le> j" by simp
    moreover have "\<bar>confidence_f64 f - of_int j / 100\<bar> \<le> 1 / 100000000000000"
      unfolding c using pj by linarith
    ultimately show ?thesis using j(2) by blast
  next
    case False
    then have c: "confidence_f64 f = fl (1 - p)"
      unfolding confidence_f64_def p_def [symmetric] fl_1_0 by simp
    have "p \<le> 1 / 2" using False unfolding fl_0_5 by simp
    then have "of_int j < (51::real)" using pj by linarith
    then have "j < 51" by linarith
    then have j50: "j \<le> 50" by simp
    have jr: "18 \<le> (of_int j :: real)" "(of_int j :: real) \<le> 50"
      using j(1) j50 by simp_all
    then have "\<bar>1 - p\<bar> \<le> 2" using pj by linarith
    then have "\<bar>fl (1 - p) - (1 - p)\<bar> \<le> 1 / 4000000000000000" by (rule fl_near)
    moreover have "(of_int (100 - j) :: real) / 100 = 1 - of_int j / 100"
      by (simp add: diff_divide_distrib)
    ultimately have "\<bar>confidence_f64 f - of_int (100 - j) / 100\<bar> \<le> 1 / 100000000000000"
      unfolding c using pj by linarith
    moreover have "50 \<le> 100 - j" "100 - j \<le> 99" using j(1) j50 by simp_all
    ultimately show ?thesis by blast
  qed
qed

lemma py_round_near_hundredth:
  assumes "\<bar>x - of_int m / 100\<bar> \<le> 1 / 100000000000000"
  shows "py_round x 2 = of_int m / 100"
proof -
  have "\<bar>x * 100 - of_int m\<bar> < 1 / 2" using assms by linarith
  then have "round_half_even (x * 100) = m" by (rule round_half_even_near)
  then show ?thesis by (simp add: py_round_def)
qed

lemma fl_hundredths_bounds:
  fixes m :: int
  assumes "50 \<le> m" "m \<le> 99"
  shows "fl 0.01 \<le> fl (of_int m / 100)" "fl (of_int m / 100) \<le> fl 0.99"
    "0.01 \<le> fl (of_int m / 100)" "fl (of_int m / 100) \<le> 0.99"
proof -
  define x :: real where "x = of_int m / 100"
  have x: "1 / 2 \<le> x" "x \<le> 99 / 100" using assms by (simp_all add: x_def)
  then have n: "\<bar>fl x - x\<bar> \<le> 1 / 4000000000000000" by (intro fl_near) linarith
  have lo: "49 / 100 \<le> fl x" using n x by linarith
  show "fl 0.01 \<le> fl (of_int m / 100)"
    using lo clamp_bounds(1) unfolding x_def by linarith
  show "0.01 \<le> fl (of_int m / 100)" using lo unfolding x_def by simp
  have top: "fl (99 / 100) \<le> 99 / 100" "fl (99 / 100) = fl 0.99"
    using fl_0_99 by simp_all
  show "fl (of_int m / 100) \<le> fl 0.99"
  proof (cases "m = 99")
    case True
    then show ?thesis by simp
  next
    case False
    then have "m \<le> 98" using assms(2) by simp
    then have "x \<le> 98 / 100" by (simp add: x_def)
    then show ?thesis using n clamp_bounds(2) unfolding x_def by linarith
  qed
  show "fl (of_int m / 100) \<le> 0.99"
  proof (cases "m = 99")
    case True
    then show ?thesis using top(1) by simp
  next
    case False
    then have "m \<le> 98" using assms(2) by simp
    then have "x \<le> 98 / 100" by (simp add: x_def)
    then have "fl x \<le> 99 / 100" using n by linarith
    then show ?thesis unfolding x_def by simp
  qed
qed

lemma confidence_f64_no_rule:
  assumes "no_rule_fires f"
  shows "confidence_f64 f = 3692951694443807 / 2 ^ 52"
proof -
  have p: "ai_probability_f64 f = 810647932926689 / 2 ^ 52"
    unfolding lower_clamp_inert pre_clamp_f64_no_rule [OF assms] fl_0_99 by simp
  have "\<not> ai_probability_f64 f > fl 0.5" unfolding p fl_0_5 by simp
  then have "confidence_f64 f = fl (1 - 810647932926689 / 2 ^ 52)"
    unfolding confidence_f64_def fl_1_0 p by simp
  then show ?thesis unfolding fail_confidence .
qed

lemma returned_confidence_f64_no_rule:
  assumes "no_rule_fires f"
  shows "returned_confidence_f64 f = fl 0.82"
proof -
  have "\<bar>confidence_f64 f - of_int 82 / 100\<bar> \<le> 1 / 100000000000000"
    unfolding confidence_f64_no_rule [OF assms] by simp
  then have r: "py_round (confidence_f64 f) 2 = of_int 82 / 100"
    by (rule py_round_near_hundredth)
  show ?thesis unfolding returned_confidence_f64_def py_round_f64_def r by simp
qed

lemma score_f64_inner:
  assumes "- 7 \<le> twentieths_f64 f" "twentieths_f64 f \<le> 19"
  shows "- (7 / 20) - 3 / 1000000000000000 \<le> score_f64 f"
    "score_f64 f \<le> 19 / 20 + 3 / 1000000000000000"
    "22 / 100 - 4 / 1000000000000000 \<le> pre_clamp_f64 f"
    "pre_clamp_f64 f \<le> 126 / 100 + 4 / 1000000000000000"
proof -
  have k: "- 7 \<le> (of_int (twentieths_f64 f) :: real)" "(of_int (twentieths_f64 f) :: real) \<le> 19"
    using assms by linarith+
  then have "- (7 / 20) \<le> (of_int (twentieths_f64 f) :: real) / 20"
    "(of_int (twentieths_f64 f) :: real) / 20 \<le> 19 / 20"
    by simp_all
  then show "- (7 / 20) - 3 / 1000000000000000 \<le> score_f64 f"
    "score_f64 f \<le> 19 / 20 + 3 / 1000000000000000"
    using score_f64_error [of f] by linarith+
  have "22 / 100 \<le> (of_int (50 + 4 * twentieths_f64 f) :: real) / 100"
    "(of_int (50 + 4 * twentieths_f64 f) :: real) / 100 \<le> 126 / 100"
    using k by simp_all
  then show "22 / 100 - 4 / 1000000000000000 \<le> pre_clamp_f64 f"
    "pre_clamp_f64 f \<le> 126 / 100 + 4 / 1000000000000000"
    using pre_clamp_f64_error [of f] by linarith+
qed

lemma twentieths_f64_cases:
  obtains "no_rule_fires f" "\<not> every_rule_fires f"
  | "every_rule_fires f" "\<not> no_rule_fires f"
  | "\<not> no_rule_fires f" "\<not> every_rule_fires f" "- 7 \<le> twentieths_f64 f"
      "twentieths_f64 f \<le> 19"
proof -
  note r = twentieths_f64_range [of f]
  consider "twentieths_f64 f = - 8" | "twentieths_f64 f = 20"
    | "- 7 \<le> twentieths_f64 f \<and> twentieths_f64 f \<le> 19"
    using r(1,2) by linarith
  then show ?thesis
  proof cases
    case 1
    then have "no_rule_fires f" "twentieths_f64 f \<noteq> 20" using r(3) by simp_all
    then show ?thesis using r(4) that(1) by simp
  next
    case 2
    then have "every_rule_fires f" "twentieths_f64 f \<noteq> - 8" using r(4) by simp_all
    then show ?thesis using r(3) that(2) by simp
  next
    case 3
    then have "twentieths_f64 f \<noteq> - 8" "twentieths_f64 f \<noteq> 20" by simp_all
    then have "\<not> no_rule_fires f" "\<not> every_rule_fires f" using r(3,4) by simp_all
    then show ?thesis using 3 that(3) by simp
  qed
qed

lemma score_f64_extremes:
  "- fl 0.40 \<le> score_f64 f" "score_f64 f \<le> 1"
  "(score_f64 f = - fl 0.40) = no_rule_fires f"
  "(score_f64 f = 1) = every_rule_fires f"
proof -
  have all: "- fl 0.40 \<le> score_f64 f \<and> score_f64 f \<le> 1
      \<and> (score_f64 f = - fl 0.40) = no_rule_fires f
      \<and> (score_f64 f = 1) = every_rule_fires f"
  proof (cases f rule: twentieths_f64_cases)
    case 1
    then show ?thesis unfolding fl_0_4 score_f64_no_rule [OF 1(1)] by simp
  next
    case 2
    then show ?thesis unfolding fl_0_4 score_f64_every_rule [OF 2(1)] by simp
  next
    case 3
    have lo: "- (3602879701896397 / 2 ^ 53) < - (7 / 20) - 3 / (1000000000000000::real)"
      by simp
    note b = score_f64_inner(1,2) [OF 3(3,4)]
    have "- (3602879701896397 / 2 ^ 53) < score_f64 f" "score_f64 f < 1"
      using b lo by linarith+
    then show ?thesis unfolding fl_0_4 using 3(1,2) by simp
  qed
  then show "- fl 0.40 \<le> score_f64 f" "score_f64 f \<le> 1"
    "(score_f64 f = - fl 0.40) = no_rule_fires f"
    "(score_f64 f = 1) = every_rule_fires f"
    by simp_all
qed

lemma pre_clamp_f64_extremes:
  "fl 0.17999999999999994 \<le> pre_clamp_f64 f" "pre_clamp_f64 f \<le> fl 1.30"
  "(pre_clamp_f64 f = fl 0.17999999999999994) = no_rule_fires f"
proof -
  have all: "fl 0.17999999999999994 \<le> pre_clamp_f64 f \<and> pre_clamp_f64 f \<le> fl 1.30
      \<and> (pre_clamp_f64 f = fl 0.17999999999999994) = no_rule_fires f"
  proof (cases f rule: twentieths_f64_cases)
    case 1
    then show ?thesis
      unfolding fl_0_17999999999999994 fl_1_3 pre_clamp_f64_no_rule [OF 1(1)] by simp
  next
    case 2
    then show ?thesis
      unfolding fl_0_17999999999999994 fl_1_3 pre_clamp_f64_every_rule [OF 2(1)] by simp
  next
    case 3
    have lo: "810647932926689 / 2 ^ 52 < 22 / 100 - 4 / (1000000000000000::real)"
      and hi: "126 / 100 + 4 / (1000000000000000::real) < 5854679515581645 / 2 ^ 52"
      by simp_all
    note b = score_f64_inner(3,4) [OF 3(3,4)]
    have "810647932926689 / 2 ^ 52 < pre_clamp_f64 f"
      "pre_clamp_f64 f < 5854679515581645 / 2 ^ 52"
      using b lo hi by linarith+
    then show ?thesis unfolding fl_0_17999999999999994 fl_1_3 using 3(1) by simp
  qed
  then show "fl 0.17999999999999994 \<le> pre_clamp_f64 f" "pre_clamp_f64 f \<le> fl 1.30"
    "(pre_clamp_f64 f = fl 0.17999999999999994) = no_rule_fires f"
    by simp_all
qed

lemma lower_clamp_never_returned: "fl 0.01 < ai_probability_f64 f"
proof -
  have "fl 0.01 < pre_clamp_f64 f"
    using clamp_bounds(1) pre_clamp_f64_range(1) [of f] by linarith
  moreover have "fl 0.01 < fl 0.99" using clamp_bounds by linarith
  ultimately show ?thesis unfolding lower_clamp_inert by simp
qed

text \<open>
  Claim C10, as stated, fails in double precision: when no rule fires the score is the
  double \<open>-0.4\<close>, and \<open>0.5 + score * 0.8\<close> evaluates to \<open>0.17999999999999994\<close>, which is
  below 0.18, both as a real number and compared with the double nearest to 0.18.
\<close>

theorem pre_clamp_below_lower_bound:
  "no_rule_fires all_fail
   \<and> score_f64 all_fail = - fl 0.40
   \<and> pre_clamp_f64 all_fail = fl 0.17999999999999994
   \<and> pre_clamp_f64 all_fail < fl 0.18
   \<and> pre_clamp_f64 all_fail < 0.18"
proof -
  note nf = no_rule_fires_all_fail
  have 1: "score_f64 all_fail = - fl 0.40"
    unfolding score_f64_no_rule [OF nf] fl_0_4 ..
  have 2: "pre_clamp_f64 all_fail = fl 0.17999999999999994"
    unfolding pre_clamp_f64_no_rule [OF nf] fl_0_17999999999999994 ..
  have 3: "pre_clamp_f64 all_fail < fl 0.18"
    unfolding pre_clamp_f64_no_rule [OF nf] fl_0_18 by simp
  have 4: "pre_clamp_f64 all_fail < 0.18"
    unfolding pre_clamp_f64_no_rule [OF nf] by simp
  from nf 1 2 3 4 show ?thesis by (intro conjI)
qed

text \<open>
  Claim C10, amended. In double precision the accumulated score lies between the doubles
  \<open>-0.40\<close> and \<open>1.00\<close>; it is \<open>-0.40\<close> exactly when the pitch, jitter and shimmer
  conditions fail and no other rule fires, and \<open>1.00\<close> exactly when every positive rule
  fires (with \<open>hnr > 20\<close>); both cases occur. The value of \<open>0.5 + score * 0.8\<close> lies
  between the doubles \<open>0.17999999999999994\<close> and \<open>1.30\<close>, and it is
  \<open>0.17999999999999994\<close> exactly when no rule fires. The lower clamp never acts, and the
  clamped probability is greater than the double \<open>0.01\<close>.
\<close>

theorem score_range_and_lower_clamp_f64:
  "- fl 0.40 \<le> score_f64 f \<and> score_f64 f \<le> 1.00
   \<and> (score_f64 f = - fl 0.40) = no_rule_fires f
   \<and> (score_f64 f = 1.00) = every_rule_fires f
   \<and> no_rule_fires all_fail \<and> every_rule_fires all_fire
   \<and> fl 0.17999999999999994 \<le> pre_clamp_f64 f \<and> pre_clamp_f64 f \<le> fl 1.30
   \<and> (pre_clamp_f64 f = fl 0.17999999999999994) = no_rule_fires f
   \<and> ai_probability_f64 f = min (fl 0.99) (pre_clamp_f64 f)
   \<and> fl 0.01 < ai_probability_f64 f"
proof -
  have s: "- fl 0.40 \<le> score_f64 f" "score_f64 f \<le> 1.00"
    "(score_f64 f = - fl 0.40) = no_rule_fires f"
    "(score_f64 f = 1.00) = every_rule_fires f"
    using score_f64_extremes [of f] by simp_all
  note p = pre_clamp_f64_extremes [of f]
  from s no_rule_fires_all_fail every_rule_fires_all_fire p
    lower_clamp_inert [of f] lower_clamp_never_returned [of f]
  show ?thesis by (intro conjI)
qed

text \<open>
  Claim C3. In double precision the returned confidence is \<open>ai_probability\<close> (label
  \<open>AI_GENERATED\<close>) or \<open>1 - ai_probability\<close> (label \<open>HUMAN\<close>) rounded to two
  decimals: the confidence before rounding lies within \<open>10\<^sup>-\<^sup>1\<^sup>4\<close> of a whole number
  \<open>m\<close> of hundredths between 50 and 99, and the returned value is the double nearest to
  \<open>m / 100\<close>. It lies in \<open>[0.01, 0.99]\<close>, compared with the doubles and with the decimals.
  The rounding acts: when no rule fires the confidence before rounding is
  \<open>0.8200000000000001\<close> and the returned value is \<open>0.82\<close>.
\<close>

theorem returned_confidence_rounded_and_bounded:
  "returned_confidence_f64 f =
     py_round_f64 (if classification_f64 f = AI_GENERATED then ai_probability_f64 f
                   else fl (fl 1.0 - ai_probability_f64 f)) 2
   \<and> (\<exists>m::int. 50 \<le> m \<and> m \<le> 99
         \<and> \<bar>confidence_f64 f - of_int m / 100\<bar> \<le> 1 / 10 ^ 14
         \<and> returned_confidence_f64 f = fl (of_int m / 100))
   \<and> fl 0.01 \<le> returned_confidence_f64 f \<and> returned_confidence_f64 f \<le> fl 0.99
   \<and> 0.01 \<le> returned_confidence_f64 f \<and> returned_confidence_f64 f \<le> 0.99
   \<and> confidence_f64 all_fail = fl 0.8200000000000001
   \<and> returned_confidence_f64 all_fail = fl 0.82
   \<and> returned_confidence_f64 all_fail \<noteq> confidence_f64 all_fail"
proof -
  have 1: "returned_confidence_f64 f =
     py_round_f64 (if classification_f64 f = AI_GENERATED then ai_probability_f64 f
                   else fl (fl 1.0 - ai_probability_f64 f)) 2"
    by (simp add: returned_confidence_f64_def confidence_f64_def classification_f64_def)
  obtain m :: int where m: "50 \<le> m" "m \<le> 99"
    "\<bar>confidence_f64 f - of_int m / 100\<bar> \<le> 1 / 100000000000000"
    using confidence_f64_hundredths [of f] by blast
  have r: "returned_confidence_f64 f = fl (of_int m / 100)"
    unfolding returned_confidence_f64_def py_round_f64_def
      py_round_near_hundredth [OF m(3)] ..
  have "\<bar>confidence_f64 f - of_int m / 100\<bar> \<le> 1 / 10 ^ 14" using m(3) by simp
  with m(1,2) r have 2: "\<exists>m::int. 50 \<le> m \<and> m \<le> 99
         \<and> \<bar>confidence_f64 f - of_int m / 100\<bar> \<le> 1 / 10 ^ 14
         \<and> returned_confidence_f64 f = fl (of_int m / 100)"
    by blast
  note b = fl_hundredths_bounds [OF m(1,2), folded r]
  note nf = no_rule_fires_all_fail
  have 3: "confidence_f64 all_fail = fl 0.8200000000000001"
    unfolding confidence_f64_no_rule [OF nf] fl_0_8200000000000001 ..
  have 4: "returned_confidence_f64 all_fail = fl 0.82"
    by (rule returned_confidence_f64_no_rule [OF nf])
  have 5: "returned_confidence_f64 all_fail \<noteq> confidence_f64 all_fail"
    unfolding 4 fl_0_82 confidence_f64_no_rule [OF nf] by simp
  from 1 2 b 3 4 5 show ?thesis by (intro conjI)
qed

section \<open>Properties of the audio validation\<close>

lemma decode_audio_short:
  assumes "length samples < 11025" "0 < sample_width"
  shows "decode_audio (Inr (samples, sample_width)) =
           Inl (ValueError ''Failed to process audio: Audio processing failed: Audio too short (min 0.5s required)'')"
proof -
  have "real (length samples) < 22050 * 0.5" using assms(1) by simp
  then show ?thesis using assms(2)
    by (simp add: decode_audio_def decode_audio_body_def Let_def)
qed

lemma decode_audio_long:
  assumes "11025 \<le> length samples" "0 < sample_width"
  shows "decode_audio (Inr (samples, sample_width)) =
           Inr (map (\<lambda>s. real_of_int s / sample_scale sample_width) samples, 22050)"
proof -
  have "\<not> real (length samples) < 22050 * 0.5" using assms(1) by simp
  then show ?thesis using assms(2)
    by (simp add: decode_audio_def decode_audio_body_def Let_def)
qed

lemma decode_audio_zero_width:
  "decode_audio (Inr (samples, 0)) = Inl (ValueError ''Failed to process audio: negative shift count'')"
  by (simp add: decode_audio_def decode_audio_body_def)

text \<open>
  Claim C6. A decoded signal of exactly \<open>22050 * 0.5 - 1 = 11024\<close> samples is rejected
  with a \<^verbatim>\<open>ValueError\<close> that carries a non-empty message (for every sample width the
  decoder can report, the message names the minimum duration), and a signal of exactly
  \<open>11025\<close> samples is accepted and returned with the sample rate 22050.
\<close>

theorem minimum_duration_enforced:
  "(length samples = 11024 \<longrightarrow>
      (\<exists>msg. decode_audio (Inr (samples, sample_width)) = Inl (ValueError msg) \<and> msg \<noteq> '''')
      \<and> (0 < sample_width \<longrightarrow>
           decode_audio (Inr (samples, sample_width)) =
             Inl (ValueError ''Failed to process audio: Audio processing failed: Audio too short (min 0.5s required)'')))
   \<and> (length samples = 11025 \<and> 0 < sample_width \<longrightarrow>
        (\<exists>data. decode_audio (Inr (samples, sample_width)) = Inr (data, 22050)
                \<and> length data = 11025))"
proof (intro conjI impI)
  assume l: "length samples = 11024"
  show "\<exists>msg. decode_audio (Inr (samples, sample_width)) = Inl (ValueError msg) \<and> msg \<noteq> ''''"
  proof (cases "sample_width = 0")
    case True
    then show ?thesis by (simp add: decode_audio_zero_width)
  next
    case False
    then have "0 < sample_width" by simp
    from decode_audio_short [OF _ this, of samples] l show ?thesis by simp
  qed
next
  assume "length samples = 11024" "0 < sample_width"
  then show "decode_audio (Inr (samples, sample_width)) =
      Inl (ValueError ''Failed to process audio: Audio processing failed: Audio too short (min 0.5s required)'')"
    by (intro decode_audio_short) simp_all
next
  assume a: "length samples = 11025 \<and> 0 < sample_width"
  then have "decode_audio (Inr (samples, sample_width)) =
           Inr (map (\<lambda>s. real_of_int s / sample_scale sample_width) samples, 22050)"
    by (intro decode_audio_long) simp_all
  with a show "\<exists>data. decode_audio (Inr (samples, sample_width)) = Inr (data, 22050)
                \<and> length data = 11025"
    by simp
qed

text \<open>Claim C6 at two silent 16-bit signals of 11024 and 11025 samples.\<close>

theorem minimum_duration_enforced_witness:
  "length (replicate 11024 (0::int)) = 11024
   \<and> decode_audio (Inr (replicate 11024 0, 2)) =
       Inl (ValueError ''Failed to process audio: Audio processing failed: Audio too short (min 0.5s required)'')
   \<and> length (replicate 11025 (0::int)) = 11025
   \<and> (\<exists>data. decode_audio (Inr (replicate 11025 0, 2)) = Inr (data, 22050) \<and> length data = 11025)"
  using minimum_duration_enforced [of "replicate 11024 0" 2]
    minimum_duration_enforced [of "replicate 11025 0" 2]
  by simp

section \<open>Properties of the harmonic-to-noise ratio\<close>

subsection \<open>The autocorrelation of the example signals\<close>

lemma three_pulses_list: "three_pulses = [1/2, 0, 1/4, 0, 0, 0, 0, 0, 0, 0, 0, 0, 0, 0, 0, 0, 0, 0, 0, 0, 0, 0, 0, 0, 0, 0, 0, 0, 0, 0, 0, 0, 0, 0, 0, 0, 0, 0, 0, 0, 0, 0, 0, 0, 0, 0, 0, 0, 0, 0, 0, 0, 1/8]"
  by (simp add: three_pulses_def eval_nat_numeral)

lemma autocorr_three_pulses_list:
  "map (autocorr_at three_pulses) [0 ..< length three_pulses] = [21/64, 0, 1/8, 0, 0, 0, 0, 0, 0, 0, 0, 0, 0, 0, 0, 0, 0, 0, 0, 0, 0, 0, 0, 0, 0, 0, 0, 0, 0, 0, 0, 0, 0, 0, 0, 0, 0, 0, 0, 0, 0, 0, 0, 0, 0, 0, 0, 0, 0, 0, 1/32, 0, 1/16]"
  unfolding autocorr_at_def three_pulses_list
  by (simp add: upt_rec_numeral)

lemma autocorr_at_sum: "autocorr_at y k = (\<Sum>n<length y - k. y ! n * y ! (n + k))"
  by (simp add: autocorr_at_def interv_sum_list_conv_sum_set_nat atLeast0LessThan)

lemma autocorr_at_append_zeros:
  assumes "k < length y + n"
  shows "autocorr_at (y @ replicate n 0) k = (if k < length y then autocorr_at y k else 0)"
proof -
  define z where "z = y @ replicate n 0"
  have lz: "length z = length y + n" by (simp add: z_def)
  have zero: "z ! m * z ! (m + k) = 0" if "m < length y + n - k" "\<not> m < length y - k" for m
  proof -
    have "length y \<le> m + k" "m + k < length y + n" using that by simp_all
    then have "z ! (m + k) = 0" by (simp add: z_def nth_append)
    then show ?thesis by simp
  qed
  have same: "z ! m * z ! (m + k) = y ! m * y ! (m + k)" if "m < length y - k" for m
  proof -
    have "m < length y" "m + k < length y" using that by simp_all
    then show ?thesis by (simp add: z_def nth_append)
  qed
  have "autocorr_at z k = (\<Sum>m<length y + n - k. z ! m * z ! (m + k))"
    by (simp add: autocorr_at_sum lz)
  also have "\<dots> = (\<Sum>m\<in>{..<length y - k}. z ! m * z ! (m + k))"
    by (rule sum.mono_neutral_right) (auto simp: zero)
  also have "\<dots> = (\<Sum>m<length y - k. y ! m * y ! (m + k))"
    by (rule sum.cong) (simp_all add: same)
  also have "\<dots> = autocorr_at y k" by (simp add: autocorr_at_sum)
  finally have eq: "autocorr_at z k = autocorr_at y k" .
  have "autocorr_at y k = 0" if "\<not> k < length y"
    using that by (simp add: autocorr_at_def)
  with eq show ?thesis unfolding z_def by simp
qed

lemma autocorrelate_append_zeros:
  "exact_autocorrelate (y @ replicate n 0) =
     Some (map (autocorr_at y) [0 ..< length y] @ replicate n 0)"
proof -
  have "map (autocorr_at (y @ replicate n 0)) [0 ..< length y + n]
      = map (autocorr_at y) [0 ..< length y] @ replicate n 0"
  proof (rule nth_equalityI)
    show "length (map (autocorr_at (y @ replicate n 0)) [0 ..< length y + n])
        = length (map (autocorr_at y) [0 ..< length y] @ replicate n 0)"
      by simp
  next
    fix k
    assume "k < length (map (autocorr_at (y @ replicate n 0)) [0 ..< length y + n])"
    then have k: "k < length y + n" by simp
    have "map (autocorr_at (y @ replicate n 0)) [0 ..< length y + n] ! k
        = autocorr_at (y @ replicate n 0) k"
      using k by simp
    also have "\<dots> = (if k < length y then autocorr_at y k else 0)"
      by (rule autocorr_at_append_zeros [OF k])
    also have "\<dots> = (map (autocorr_at y) [0 ..< length y] @ replicate n 0) ! k"
      using k by (simp add: nth_append)
    finally show "map (autocorr_at (y @ replicate n 0)) [0 ..< length y + n] ! k
        = (map (autocorr_at y) [0 ..< length y] @ replicate n 0) ! k" .
  qed
  then show ?thesis by (simp add: exact_autocorrelate_def)
qed

subsection \<open>Peaks and noise window\<close>

lemma find_peaks_indices:
  "find_peaks autocorr sr = map (\<lambda>i. (i, autocorr ! i)) (peak_indices autocorr sr)"
  by (simp add: find_peaks_def peak_indices_def)

lemma set_peak_indices: "set (peak_indices autocorr sr) = {i. is_local_max autocorr sr i}"
  by (auto simp: peak_indices_def is_local_max_def)

lemma sorted_peak_indices: "sorted_wrt (<) (peak_indices autocorr sr)"
  unfolding peak_indices_def by (intro sorted_wrt_filter) simp

lemma py_max_from_first_maximum:
  assumes "\<forall>k \<in> set is. b < k" "sorted_wrt (<) is"
  shows "\<exists>m \<in> set (b # is).
           py_max_from (b, f b) (map (\<lambda>i. (i, f i)) is) = (m, f m)
           \<and> (\<forall>k \<in> set (b # is). f k \<le> f m)
           \<and> (\<forall>k \<in> set (b # is). k < m \<longrightarrow> f k < f m)"
  using assms
proof (induction "is" arbitrary: b)
  case Nil
  then show ?case by simp
next
  case (Cons i "is")
  have bi: "b < i" using Cons.prems(1) by simp
  have srt: "sorted_wrt (<) is" and ik: "\<forall>k \<in> set is. i < k"
    using Cons.prems(2) by simp_all
  show ?case
  proof (cases "f i > (f b :: real)")
    case True
    from Cons.IH [OF ik srt] obtain m where m: "m \<in> set (i # is)"
      "py_max_from (i, f i) (map (\<lambda>i. (i, f i)) is) = (m, f m)"
      "\<forall>k \<in> set (i # is). f k \<le> f m"
      "\<forall>k \<in> set (i # is). k < m \<longrightarrow> f k < f m"
      by blast
    have fim: "f i \<le> f m" using m(3) by simp
    have 1: "py_max_from (b, f b) (map (\<lambda>i. (i, f i)) (i # is)) = (m, f m)"
      using True m(2) by simp
    have 2: "\<forall>k \<in> set (b # i # is). f k \<le> f m"
      using m(3) True fim by auto
    have 3: "\<forall>k \<in> set (b # i # is). k < m \<longrightarrow> f k < f m"
      using m(4) True fim by auto
    from m(1) 1 2 3 show ?thesis by (intro bexI [of _ m]) simp_all
  next
    case False
    have bk: "\<forall>k \<in> set is. b < k" using Cons.prems(1) by simp
    from Cons.IH [OF bk srt] obtain m where m: "m \<in> set (b # is)"
      "py_max_from (b, f b) (map (\<lambda>i. (i, f i)) is) = (m, f m)"
      "\<forall>k \<in> set (b # is). f k \<le> f m"
      "\<forall>k \<in> set (b # is). k < m \<longrightarrow> f k < f m"
      by blast
    have fbm: "f b \<le> f m" using m(3) by simp
    have 1: "py_max_from (b, f b) (map (\<lambda>i. (i, f i)) (i # is)) = (m, f m)"
      using False m(2) by simp
    have 2: "\<forall>k \<in> set (b # i # is). f k \<le> f m"
      using m(3) False fbm by auto
    have im: "f i < f m" if "i < m"
    proof -
      have "m \<noteq> b" using that bi by simp
      then have "b < m" using m(1) bk by auto
      then have "f b < f m" using m(4) by simp
      then show ?thesis using False by simp
    qed
    have 3: "\<forall>k \<in> set (b # i # is). k < m \<longrightarrow> f k < f m"
      using m(4) im by auto
    from m(1) 1 2 3 show ?thesis by (intro bexI [of _ m]) auto
  qed
qed

lemma take_drop_as_map:
  "a + n \<le> length xs \<Longrightarrow> take n (drop a xs) = map (nth xs) [a ..< a + n]"
  by (rule nth_equalityI) simp_all

lemma drop_as_map: "drop a xs = map (nth xs) [a ..< length xs]"
  by (rule nth_equalityI) simp_all

lemma slice_window:
  assumes "i + 50 < length autocorr"
  shows "slice autocorr (i + 1) (i + 50) = noise_window autocorr i"
proof -
  have e: "i + 1 + 49 = i + 50" by simp
  have m: "min (i + 50) (length autocorr) = i + 50" using assms by simp
  have "slice autocorr (i + 1) (i + 50) = take 49 (drop (i + 1) autocorr)"
    by (simp add: slice_def)
  also have "\<dots> = map (nth autocorr) [i + 1 ..< i + 1 + 49]"
    using assms by (intro take_drop_as_map) simp
  also have "\<dots> = map (nth autocorr) [i + 1 ..< i + 50]"
    by (simp only: e)
  also have "\<dots> = noise_window autocorr i"
    by (simp only: noise_window_def m)
  finally show ?thesis .
qed

lemma drop_window:
  assumes "\<not> i + 50 < length autocorr"
  shows "drop (i + 1) autocorr = noise_window autocorr i"
  using assms drop_as_map [of "i + 1" autocorr] by (simp add: noise_window_def min_def)

lemma length_noise_window:
  "length (noise_window autocorr i) = min 49 (length autocorr - (i + 1))"
  by (auto simp: noise_window_def min_def)

lemma strongest_peak:
  assumes "find_peaks autocorr sr = p # ps"
  shows "\<exists>i. is_local_max autocorr sr i \<and> py_max_from p ps = (i, autocorr ! i)
             \<and> (\<forall>k. is_local_max autocorr sr k \<longrightarrow> autocorr ! k \<le> autocorr ! i)
             \<and> (\<forall>k<i. is_local_max autocorr sr k \<longrightarrow> autocorr ! k < autocorr ! i)"
proof -
  from assms obtain b "is" where bis: "peak_indices autocorr sr = b # is"
    and p: "p = (b, autocorr ! b)" and ps: "ps = map (\<lambda>i. (i, autocorr ! i)) is"
    unfolding find_peaks_indices by (auto simp: map_eq_Cons_conv)
  have srt: "sorted_wrt (<) (b # is)"
    using sorted_peak_indices [of autocorr sr] unfolding bis .
  then have 1: "\<forall>k \<in> set is. b < k" and 2: "sorted_wrt (<) is" by simp_all
  from py_max_from_first_maximum [OF 1 2, of "nth autocorr"] obtain m where
    m: "m \<in> set (b # is)"
       "py_max_from (b, autocorr ! b) (map (\<lambda>i. (i, autocorr ! i)) is) = (m, autocorr ! m)"
       "\<forall>k \<in> set (b # is). autocorr ! k \<le> autocorr ! m"
       "\<forall>k \<in> set (b # is). k < m \<longrightarrow> autocorr ! k < autocorr ! m"
    by blast
  have mem: "k \<in> set (b # is) \<longleftrightarrow> is_local_max autocorr sr k" for k
    using set_peak_indices [of autocorr sr] unfolding bis by blast
  have a: "is_local_max autocorr sr m" using m(1) mem by blast
  have b: "py_max_from p ps = (m, autocorr ! m)" using m(2) p ps by simp
  have c: "\<forall>k. is_local_max autocorr sr k \<longrightarrow> autocorr ! k \<le> autocorr ! m"
    using m(3) mem by blast
  have d: "\<forall>k<m. is_local_max autocorr sr k \<longrightarrow> autocorr ! k < autocorr ! m"
    using m(4) mem by blast
  from a b c d show ?thesis by blast
qed

lemma no_peaks: "find_peaks autocorr sr = [] \<longleftrightarrow> (\<forall>i. \<not> is_local_max autocorr sr i)"
  using set_peak_indices [of autocorr sr] unfolding find_peaks_indices by auto

lemma clip_commute: "min (40::real) (max 0 x) = max 0 (min 40 x)"
  by (simp add: min_def max_def)

lemma clipped_ratio:
  assumes "0 < noise"
  shows "np_clip (np_times 10 (np_log10 (v / noise))) 0 40 =
           (if v > 0 then Finite (max 0 (min 40 (10 * log 10 (v / noise))))
            else if v = 0 then Finite 0 else NaN)"
proof -
  consider "v > 0" | "v = 0" | "v < 0" by linarith
  then show ?thesis
  proof cases
    case 1
    then have "v / noise > 0" using assms by simp
    then show ?thesis using 1 by (simp add: np_log10_def clip_commute)
  next
    case 2
    then show ?thesis by (simp add: np_log10_def)
  next
    case 3
    then have "v / noise < 0" using assms by (simp add: divide_neg_pos)
    then show ?thesis using 3 assms by (simp add: np_log10_def)
  qed
qed

lemma calculate_hnr_at_peak:
  assumes "librosa_autocorrelate y = Some autocorr" "find_peaks autocorr sr = p # ps"
    "py_max_from p ps = (i, v)"
  shows "calculate_hnr librosa_autocorrelate y sr =
           (if np_mean (noise_window autocorr i) > 0
            then np_clip (np_times 10 (np_log10 (v / np_mean (noise_window autocorr i)))) 0 40
            else Finite 10)"
proof (cases "i + 50 < length autocorr")
  case True
  have "slice autocorr (Suc i) (i + 50) = noise_window autocorr i"
    using slice_window [OF True] by simp
  then show ?thesis using assms True
    by (simp add: calculate_hnr_def Let_def)
next
  case False
  have "drop (Suc i) autocorr = noise_window autocorr i"
    using drop_window [OF False] by simp
  then show ?thesis using assms False
    by (simp add: calculate_hnr_def Let_def)
qed

text \<open>
  Claim C4, amended. If the library call raises, or no lag \<open>i\<close> with
  \<open>1 \<le> i < sr div 50\<close> is strictly greater than both neighbours, the result is 10.0.
  Otherwise the peak \<open>i\<close> of largest value is taken (the first one, if several share that
  value); the noise power is the mean of the autocorrelation at lags \<open>i + 1\<close> to
  \<open>i + 49\<close>, that is 49 samples, or of all remaining samples when fewer than 50 follow
  the peak; the window is never empty. If the noise power is not positive the result is
  10.0; if it is positive and the peak value is positive the result is
  \<open>10 * log10 (peak / noise)\<close> clipped to \<open>[0, 40]\<close>. (For a peak value of zero numpy
  gives 0.0, for a negative one \<^verbatim>\<open>nan\<close>.)
\<close>

theorem hnr_of_strongest_peak:
  "(librosa_autocorrelate y = None \<longrightarrow> calculate_hnr librosa_autocorrelate y sr = Finite 10)
   \<and> (\<forall>autocorr. librosa_autocorrelate y = Some autocorr \<longrightarrow>
        ((\<forall>i. \<not> is_local_max autocorr sr i) \<longrightarrow>
            calculate_hnr librosa_autocorrelate y sr = Finite 10)
        \<and> ((\<exists>i. is_local_max autocorr sr i) \<longrightarrow>
            (\<exists>i. is_local_max autocorr sr i
               \<and> (\<forall>k. is_local_max autocorr sr k \<longrightarrow> autocorr ! k \<le> autocorr ! i)
               \<and> (\<forall>k<i. is_local_max autocorr sr k \<longrightarrow> autocorr ! k < autocorr ! i)
               \<and> length (noise_window autocorr i) = min 49 (length autocorr - (i + 1))
               \<and> noise_window autocorr i \<noteq> []
               \<and> calculate_hnr librosa_autocorrelate y sr =
                   (if np_mean (noise_window autocorr i) > 0
                    then (if autocorr ! i > 0
                          then Finite (max 0 (min 40
                                 (10 * log 10 (autocorr ! i / np_mean (noise_window autocorr i)))))
                          else if autocorr ! i = 0 then Finite 0 else NaN)
                    else Finite 10))))"
proof (intro conjI impI allI)
  assume "librosa_autocorrelate y = None"
  then show "calculate_hnr librosa_autocorrelate y sr = Finite 10"
    by (simp add: calculate_hnr_def)
next
  fix autocorr
  assume "librosa_autocorrelate y = Some autocorr" "\<forall>i. \<not> is_local_max autocorr sr i"
  then show "calculate_hnr librosa_autocorrelate y sr = Finite 10"
    using no_peaks [of autocorr sr] by (simp add: calculate_hnr_def)
next
  fix autocorr
  assume lib: "librosa_autocorrelate y = Some autocorr" and ex: "\<exists>i. is_local_max autocorr sr i"
  then have "find_peaks autocorr sr \<noteq> []" using no_peaks [of autocorr sr] by blast
  then obtain p ps where pk: "find_peaks autocorr sr = p # ps"
    by (cases "find_peaks autocorr sr") auto
  from strongest_peak [OF pk] obtain i where i: "is_local_max autocorr sr i"
    "py_max_from p ps = (i, autocorr ! i)"
    "\<forall>k. is_local_max autocorr sr k \<longrightarrow> autocorr ! k \<le> autocorr ! i"
    "\<forall>k<i. is_local_max autocorr sr k \<longrightarrow> autocorr ! k < autocorr ! i"
    by blast
  have len: "length (noise_window autocorr i) = min 49 (length autocorr - (i + 1))"
    by (rule length_noise_window)
  have "i + 1 < length autocorr" using i(1) by (simp add: is_local_max_def)
  then have "0 < min 49 (length autocorr - (i + 1))" by simp
  then have "0 < length (noise_window autocorr i)" by (simp only: len)
  then have ne: "noise_window autocorr i \<noteq> []" by simp
  have res: "calculate_hnr librosa_autocorrelate y sr =
                   (if np_mean (noise_window autocorr i) > 0
                    then (if autocorr ! i > 0
                          then Finite (max 0 (min 40
                                 (10 * log 10 (autocorr ! i / np_mean (noise_window autocorr i)))))
                          else if autocorr ! i = 0 then Finite 0 else NaN)
                    else Finite 10)"
    unfolding calculate_hnr_at_peak
      [of librosa_autocorrelate y autocorr sr p ps i "autocorr ! i", OF lib pk i(2)]
    using clipped_ratio [of "np_mean (noise_window autocorr i)" "autocorr ! i"]
    by simp
  from i(1) i(3) i(4) len ne res
  show "\<exists>i. is_local_max autocorr sr i
               \<and> (\<forall>k. is_local_max autocorr sr k \<longrightarrow> autocorr ! k \<le> autocorr ! i)
               \<and> (\<forall>k<i. is_local_max autocorr sr k \<longrightarrow> autocorr ! k < autocorr ! i)
               \<and> length (noise_window autocorr i) = min 49 (length autocorr - (i + 1))
               \<and> noise_window autocorr i \<noteq> []
               \<and> calculate_hnr librosa_autocorrelate y sr =
                   (if np_mean (noise_window autocorr i) > 0
                    then (if autocorr ! i > 0
                          then Finite (max 0 (min 40
                                 (10 * log 10 (autocorr ! i / np_mean (noise_window autocorr i)))))
                          else if autocorr ! i = 0 then Finite 0 else NaN)
                    else Finite 10)"
    by blast
qed

subsection \<open>The example signals\<close>

lemma zeros_47: "replicate 47 (0::real) = [0, 0, 0, 0, 0, 0, 0, 0, 0, 0, 0, 0, 0, 0, 0, 0, 0, 0, 0, 0, 0, 0, 0, 0, 0, 0, 0, 0, 0, 0, 0, 0, 0, 0, 0, 0, 0, 0, 0, 0, 0, 0, 0, 0, 0, 0, 0]"
  by (simp add: eval_nat_numeral)

lemma three_pulses_autocorr_list: "three_pulses_autocorr = [21/64, 0, 1/8, 0, 0, 0, 0, 0, 0, 0, 0, 0, 0, 0, 0, 0, 0, 0, 0, 0, 0, 0, 0, 0, 0, 0, 0, 0, 0, 0, 0, 0, 0, 0, 0, 0, 0, 0, 0, 0, 0, 0, 0, 0, 0, 0, 0, 0, 0, 0, 1/32, 0, 1/16]"
  by (simp add: three_pulses_autocorr_def zeros_47)

lemma autocorrelate_three_pulses:
  "exact_autocorrelate three_pulses = Some three_pulses_autocorr"
  unfolding exact_autocorrelate_def three_pulses_autocorr_list autocorr_three_pulses_list ..

lemma log10_100: "log 10 (100::real) = 2"
proof -
  have "(100::real) = 10 ^ 2" by simp
  then have "log 10 (100::real) = log 10 (10 ^ 2)" by simp
  also have "\<dots> = real 2 * log 10 10" by (rule log_nat_power) simp
  also have "\<dots> = 2" by simp
  finally show ?thesis .
qed

lemma log10_10000: "log 10 (10000::real) = 4"
proof -
  have "(10000::real) = 10 ^ 4" by simp
  then have "log 10 (10000::real) = log 10 (10 ^ 4)" by simp
  also have "\<dots> = real 4 * log 10 10" by (rule log_nat_power) simp
  also have "\<dots> = 4" by simp
  finally show ?thesis .
qed

lemma decibel_bracket:
  fixes r :: real
  shows "1 < r \<Longrightarrow> 0 < 10 * log 10 r" "r < 100 \<Longrightarrow> 0 < r \<Longrightarrow> 10 * log 10 r < 20"
    "100 < r \<Longrightarrow> 20 < 10 * log 10 r" "r < 10000 \<Longrightarrow> 0 < r \<Longrightarrow> 10 * log 10 r < 40"
proof -
  show "0 < 10 * log 10 r" if "1 < r" using that by simp
  show "10 * log 10 r < 20" if "r < 100" "0 < r"
  proof -
    have "log 10 r < log 10 100" using that by simp
    then show ?thesis unfolding log10_100 by simp
  qed
  show "20 < 10 * log 10 r" if "100 < r"
  proof -
    have "log 10 100 < log 10 r" using that by simp
    then show ?thesis unfolding log10_100 by simp
  qed
  show "10 * log 10 r < 40" if "r < 10000" "0 < r"
  proof -
    have "log 10 r < log 10 10000" using that by simp
    then show ?thesis unfolding log10_10000 by simp
  qed
qed

subsection \<open>A signal of valid length\<close>

lemma decode_pulse_samples:
  "decode_audio (Inr (pulse_samples, 2)) = Inr (padded_pulses, 22050)"
proof -
  have "11025 \<le> length pulse_samples" by (simp add: pulse_samples_def)
  then have "decode_audio (Inr (pulse_samples, 2)) =
      Inr (map (\<lambda>s. real_of_int s / sample_scale 2) pulse_samples, 22050)"
    by (intro decode_audio_long) simp_all
  moreover have "map (\<lambda>s. real_of_int s / sample_scale 2) pulse_samples = padded_pulses"
    by (simp add: pulse_samples_def padded_pulses_def three_pulses_def sample_scale_def)
  ultimately show ?thesis by simp
qed

lemma autocorrelate_padded_pulses:
  "exact_autocorrelate padded_pulses = Some padded_autocorr"
  unfolding padded_pulses_def padded_autocorr_def autocorrelate_append_zeros
    autocorr_three_pulses_list three_pulses_autocorr_list ..

lemma length_padded_autocorr: "length padded_autocorr = 11025"
  by (simp add: padded_autocorr_def three_pulses_autocorr_def)

lemma padded_autocorr_at_peak:
  "padded_autocorr ! 1 = 0" "padded_autocorr ! 2 = 1/8" "padded_autocorr ! 3 = 0"
  by (simp_all add: padded_autocorr_def three_pulses_autocorr_list nth_append)

lemma padded_autocorr_at_Suc_0: "padded_autocorr ! Suc 0 = 0"
  using padded_autocorr_at_peak(1) by simp

lemma padded_autocorr_elsewhere:
  assumes "1 \<le> k" "k \<noteq> 2" "k < 11025"
  shows "padded_autocorr ! k \<le> 1/16"
proof (cases "k < 3")
  case True
  then have "k = Suc 0" using assms(1,2) by simp
  then show ?thesis by (simp add: padded_autocorr_at_Suc_0)
next
  case False
  then have k3: "3 \<le> k" by simp
  have d: "drop 3 padded_autocorr = replicate 47 0 @ [1/32, 0, 1/16] @ replicate 10972 0"
    by (simp add: padded_autocorr_def three_pulses_autocorr_def)
  have small: "\<forall>x \<in> set (drop 3 padded_autocorr). x \<le> 1/16"
    unfolding d by auto
  have "padded_autocorr ! k = padded_autocorr ! (3 + (k - 3))" using k3 by simp
  also have "\<dots> = drop 3 padded_autocorr ! (k - 3)"
    by (rule nth_drop [symmetric]) (simp add: length_padded_autocorr)
  finally have "padded_autocorr ! k = drop 3 padded_autocorr ! (k - 3)" .
  moreover have "k - 3 < length (drop 3 padded_autocorr)"
    using assms(3) k3 by (simp add: length_padded_autocorr)
  ultimately have "padded_autocorr ! k \<in> set (drop 3 padded_autocorr)"
    by (simp only: nth_mem)
  then show ?thesis using small by blast
qed

lemma noise_window_padded: "noise_window padded_autocorr 2 = replicate 47 0 @ [1/32, 0]"
  unfolding noise_window_def length_padded_autocorr padded_autocorr_def
    three_pulses_autocorr_list zeros_47
  by (simp add: upt_rec_numeral nth_append)

lemma claimed_window_padded:
  "take 50 (drop (2 + 1) padded_autocorr) = replicate 47 0 @ [1/32, 0, 1/16]"
  unfolding padded_autocorr_def three_pulses_autocorr_list zeros_47 by simp

subsection \<open>Robustness against the rounding of the library\<close>

lemma sum_list_close:
  fixes f g :: "nat \<Rightarrow> real"
  assumes "\<forall>k \<in> set ks. \<bar>f k - g k\<bar> \<le> e"
  shows "\<bar>sum_list (map f ks) - sum_list (map g ks)\<bar> \<le> real (length ks) * e"
  using assms
proof (induction ks)
  case Nil
  then show ?case by simp
next
  case (Cons k ks)
  have "\<bar>f k - g k\<bar> \<le> e" using Cons.prems by simp
  moreover have "\<bar>sum_list (map f ks) - sum_list (map g ks)\<bar> \<le> real (length ks) * e"
    using Cons by simp
  ultimately show ?case by (simp add: algebra_simps)
qed

lemma noise_window_close:
  assumes "within_tolerance e xs ys"
  shows "\<bar>sum_list (noise_window xs i) - sum_list (noise_window ys i)\<bar>
           \<le> real (length (noise_window ys i)) * e"
proof -
  have len: "length xs = length ys" using assms by (simp add: within_tolerance_def)
  define ks where "ks = [i + 1 ..< min (i + 50) (length ys)]"
  have "\<forall>k \<in> set ks. \<bar>xs ! k - ys ! k\<bar> \<le> e"
    using assms by (simp add: ks_def within_tolerance_def)
  then have "\<bar>sum_list (map (nth xs) ks) - sum_list (map (nth ys) ks)\<bar> \<le> real (length ks) * e"
    by (rule sum_list_close)
  then show ?thesis by (simp add: noise_window_def len ks_def)
qed

lemma claimed_window_close:
  assumes "within_tolerance e xs ys" "a + n \<le> length ys"
  shows "\<bar>sum_list (take n (drop a xs)) - sum_list (take n (drop a ys))\<bar> \<le> real n * e"
proof -
  have len: "length xs = length ys" using assms(1) by (simp add: within_tolerance_def)
  have "\<forall>k \<in> set [a ..< a + n]. \<bar>xs ! k - ys ! k\<bar> \<le> e"
    using assms by (simp add: within_tolerance_def)
  then have "\<bar>sum_list (map (nth xs) [a ..< a + n]) - sum_list (map (nth ys) [a ..< a + n])\<bar>
      \<le> real (length [a ..< a + n]) * e"
    by (rule sum_list_close)
  moreover have "take n (drop a xs) = map (nth xs) [a ..< a + n]"
    using assms(2) len by (intro take_drop_as_map) simp
  moreover have "take n (drop a ys) = map (nth ys) [a ..< a + n]"
    using assms(2) by (intro take_drop_as_map) simp
  ultimately show ?thesis by simp
qed

lemma claimed_hnr_at_peak:
  assumes "librosa_autocorrelate y = Some autocorr" "find_peaks autocorr sr = p # ps"
    "py_max_from p ps = (i, v)"
  shows "claimed_hnr librosa_autocorrelate y sr =
           (if claimed_noise_power autocorr i > 0
            then np_clip (np_times 10 (np_log10 (v / claimed_noise_power autocorr i))) 0 40
            else Finite 10)"
  using assms by (simp add: claimed_hnr_def Let_def)

text \<open>
  Whatever the library returns for \<open>padded_pulses\<close>, as long as it is within \<open>10\<^sup>-\<^sup>6\<close> of
  the autocorrelation at every lag: the strongest peak is the one at lag 2, the mean of the
  49 samples that the code averages gives a ratio above 100, and the mean of 50 samples a
  ratio below 100.
\<close>

lemma strongest_peak_robust:
  assumes tol: "within_tolerance (1 / 10 ^ 6) ac padded_autocorr"
    and pk: "find_peaks ac 22050 = p # ps"
  shows "py_max_from p ps = (2, ac ! 2)"
proof -
  have near: "\<bar>ac ! k - padded_autocorr ! k\<bar> \<le> 1 / 10 ^ 6" if "k < 11025" for k
    using tol that by (simp add: within_tolerance_def length_padded_autocorr)
  have len: "length ac = 11025"
    using tol by (simp add: within_tolerance_def length_padded_autocorr)
  have n1: "ac ! 1 \<le> 1 / 10 ^ 6" and n2: "1/8 - 1 / 10 ^ 6 \<le> ac ! 2"
    and n3: "ac ! 3 \<le> 1 / 10 ^ 6"
    using near [of 1] near [of 2] near [of 3] unfolding padded_autocorr_at_peak by linarith+
  have lm: "is_local_max ac 22050 2"
    unfolding is_local_max_def len using n1 n2 n3 by (simp add: numeral_3_eq_3)
  from strongest_peak [OF pk] obtain i where i: "is_local_max ac 22050 i"
    "py_max_from p ps = (i, ac ! i)"
    "\<forall>k. is_local_max ac 22050 k \<longrightarrow> ac ! k \<le> ac ! i"
    by blast
  have ge: "ac ! 2 \<le> ac ! i" using i(3) lm by blast
  have range: "1 \<le> i" "i < 11025" using i(1) by (simp_all add: is_local_max_def len)
  have "i = 2"
  proof (rule ccontr)
    assume "i \<noteq> 2"
    then have "padded_autocorr ! i \<le> 1/16"
      using range by (intro padded_autocorr_elsewhere) simp_all
    then have "ac ! i \<le> 1/16 + 1 / 10 ^ 6" using near [OF range(2)] by linarith
    then show False using ge n2 by simp
  qed
  then show ?thesis using i(2) by simp
qed

lemma hnr_windows_robust:
  assumes lib: "librosa_autocorrelate padded_pulses = Some ac"
    and tol: "within_tolerance (1 / 10 ^ 6) ac padded_autocorr"
  shows "\<exists>x. calculate_hnr librosa_autocorrelate padded_pulses 22050 = Finite x
              \<and> 20 < x \<and> x < 40"
    and "\<exists>x. claimed_hnr librosa_autocorrelate padded_pulses 22050 = Finite x
              \<and> 0 < x \<and> x < 20"
proof -
  have near: "\<bar>ac ! k - padded_autocorr ! k\<bar> \<le> 1 / 10 ^ 6" if "k < 11025" for k
    using tol that by (simp add: within_tolerance_def length_padded_autocorr)
  have len: "length ac = 11025"
    using tol by (simp add: within_tolerance_def length_padded_autocorr)
  define v where "v = ac ! 2"
  have v: "1/8 - 1 / 10 ^ 6 \<le> v" "v \<le> 1/8 + 1 / 10 ^ 6"
    using near [of 2] unfolding padded_autocorr_at_peak v_def by linarith+
  have n1: "ac ! 1 \<le> 1 / 10 ^ 6" and n3: "ac ! 3 \<le> 1 / 10 ^ 6"
    using near [of 1] near [of 3] unfolding padded_autocorr_at_peak by linarith+
  have "is_local_max ac 22050 2"
    unfolding is_local_max_def len using n1 v(1) n3 by (simp add: numeral_3_eq_3 v_def)
  then have "find_peaks ac 22050 \<noteq> []" using no_peaks [of ac 22050] by blast
  then obtain p ps where pk: "find_peaks ac 22050 = p # ps"
    by (cases "find_peaks ac 22050") auto
  have mx: "py_max_from p ps = (2, v)"
    unfolding v_def by (rule strongest_peak_robust [OF tol pk])

  define n where "n = np_mean (noise_window ac 2)"
  have l49: "length (noise_window ac 2) = 49" "length (noise_window padded_autocorr 2) = 49"
    by (simp_all add: length_noise_window len length_padded_autocorr)
  define S where "S = sum_list (noise_window ac 2)"
  have sA: "sum_list (noise_window padded_autocorr 2) = 1/32"
    unfolding noise_window_padded by (simp add: sum_list_replicate)
  have "\<bar>S - 1/32\<bar> \<le> real 49 * (1 / 10 ^ 6)"
    using noise_window_close [OF tol, of 2] unfolding l49 sA S_def .
  then have "\<bar>S - 1/32\<bar> \<le> 49 / 1000000" by simp
  then have S: "1/32 - 49 / 1000000 \<le> S" "S \<le> 1/32 + 49 / 1000000" by linarith+
  have nS: "n = S / 49" unfolding n_def np_mean_def l49 S_def by simp
  have "1/1568 - 1 / 1000000 \<le> S / 49" "S / 49 \<le> 1/1568 + 1 / 1000000"
    using S by linarith+
  then have n: "1/1568 - 1 / 10 ^ 6 \<le> n" "n \<le> 1/1568 + 1 / 10 ^ 6"
    unfolding nS by simp_all
  have npos: "0 < n" using n(1) by simp
  have r1: "100 < v / n" using v(1) n(2) npos by (simp add: pos_less_divide_eq)
  have r2: "v / n < 10000" using v(2) n(1) npos by (simp add: pos_divide_less_eq)
  have "calculate_hnr librosa_autocorrelate padded_pulses 22050 =
      Finite (max 0 (min 40 (10 * log 10 (v / n))))"
    unfolding calculate_hnr_at_peak
      [of librosa_autocorrelate padded_pulses ac 22050 p ps 2 v, OF lib pk mx]
      n_def [symmetric]
    using npos v(1) clipped_ratio [OF npos, of v] by simp
  moreover have "20 < 10 * log 10 (v / n)" "10 * log 10 (v / n) < 40"
    using r1 r2 by (simp_all add: decibel_bracket)
  ultimately show "\<exists>x. calculate_hnr librosa_autocorrelate padded_pulses 22050 = Finite x
              \<and> 20 < x \<and> x < 40"
    by simp

  define c where "c = claimed_noise_power ac 2"
  define T where "T = sum_list (take 50 (drop (2 + 1) ac))"
  have tA: "sum_list (take 50 (drop (2 + 1) padded_autocorr)) = 3/32"
    unfolding claimed_window_padded by (simp add: sum_list_replicate)
  have "\<bar>sum_list (take 50 (drop (2 + 1) ac))
      - sum_list (take 50 (drop (2 + 1) padded_autocorr))\<bar> \<le> real 50 * (1 / 10 ^ 6)"
    by (rule claimed_window_close [OF tol]) (simp add: length_padded_autocorr)
  then have "\<bar>T - 3/32\<bar> \<le> real 50 * (1 / 10 ^ 6)" unfolding tA T_def .
  then have "\<bar>T - 3/32\<bar> \<le> 50 / 1000000" by simp
  then have T: "3/32 - 50 / 1000000 \<le> T" "T \<le> 3/32 + 50 / 1000000" by linarith+
  have l50: "length (take 50 (drop (2 + 1) ac)) = 50" by (simp add: len)
  have cT: "c = T / 50"
    unfolding c_def claimed_noise_power_def np_mean_def l50 T_def by simp
  have "3/1600 - 1 / 1000000 \<le> T / 50" "T / 50 \<le> 3/1600 + 1 / 1000000"
    using T by linarith+
  then have c: "3/1600 - 1 / 10 ^ 6 \<le> c" "c \<le> 3/1600 + 1 / 10 ^ 6"
    unfolding cT by simp_all
  have cpos: "0 < c" using c(1) by simp
  have q1: "1 < v / c" using v(1) c(2) cpos by (simp add: pos_less_divide_eq)
  have q2: "v / c < 100" using v(2) c(1) cpos by (simp add: pos_divide_less_eq)
  have "claimed_hnr librosa_autocorrelate padded_pulses 22050 =
      Finite (max 0 (min 40 (10 * log 10 (v / c))))"
    unfolding claimed_hnr_at_peak
      [of librosa_autocorrelate padded_pulses ac 22050 p ps 2 v, OF lib pk mx]
      c_def [symmetric]
    using cpos v(1) clipped_ratio [OF cpos, of v] by simp
  moreover have "0 < 10 * log 10 (v / c)" "10 * log 10 (v / c) < 20"
    using q1 q2 by (simp_all add: decibel_bracket)
  ultimately show "\<exists>x. claimed_hnr librosa_autocorrelate padded_pulses 22050 = Finite x
              \<and> 0 < x \<and> x < 20"
    by simp
qed

lemma within_tolerance_refl: "0 \<le> e \<Longrightarrow> within_tolerance e xs xs"
  by (simp add: within_tolerance_def)

text \<open>
  Claim C4, as stated, fails: the slice \<^verbatim>\<open>autocorr[peak_idx+1:peak_idx+50]\<close> holds 49
  samples, not 50. \<open>padded_pulses\<close> is a signal of 11025 samples, which
  \<open>decode_audio\<close> accepts, with pulses 1/2, 1/4 and 1/8 at positions 0, 2 and 52. Its
  strongest autocorrelation peak is at lag 2 with value 1/8. The 49 samples at lags 3 to 51
  hold 1/32 at lag 50, so the code divides by a mean of 1/1568 and returns
  \<open>10 * log10 196\<close>, about 22.9; the next 50 samples also hold 1/16 at lag 52, their mean is
  3/1600, and the result would be \<open>10 * log10 (200/3)\<close>, about 18.2. The two results lie on
  either side of 20, also for every sequence within \<open>10\<^sup>-\<^sup>6\<close> of this autocorrelation
  (\<open>hnr_windows_robust\<close>).
\<close>

theorem hnr_noise_window_of_49_samples:
  "decode_audio (Inr (pulse_samples, 2)) = Inr (padded_pulses, 22050)
   \<and> np_less (Finite 20) (calculate_hnr exact_autocorrelate padded_pulses 22050)
   \<and> np_less (claimed_hnr exact_autocorrelate padded_pulses 22050) (Finite 20)
   \<and> calculate_hnr exact_autocorrelate padded_pulses 22050
       \<noteq> claimed_hnr exact_autocorrelate padded_pulses 22050"
proof -
  have tol: "within_tolerance (1 / 10 ^ 6) padded_autocorr padded_autocorr"
    by (rule within_tolerance_refl) simp
  from hnr_windows_robust [of exact_autocorrelate padded_autocorr,
    OF autocorrelate_padded_pulses tol]
  obtain x x' where
    x: "calculate_hnr exact_autocorrelate padded_pulses 22050 = Finite x" "20 < x"
    and x': "claimed_hnr exact_autocorrelate padded_pulses 22050 = Finite x'" "x' < 20"
    by blast
  show ?thesis unfolding x(1) x'(1) using decode_pulse_samples x(2) x'(2) by simp
qed

subsection \<open>Instances of the characterisation\<close>

lemma no_local_max_in_zeros: "\<not> is_local_max (replicate n 0) sr i"
  by (simp add: is_local_max_def)

lemma autocorrelate_silent: "exact_autocorrelate silent_signal = Some (replicate 8 0)"
  by (simp add: exact_autocorrelate_def autocorr_at_def silent_signal_def eval_nat_numeral)

lemma local_max_padded: "is_local_max padded_autocorr 22050 2"
  unfolding is_local_max_def length_padded_autocorr
  by (simp add: padded_autocorr_at_Suc_0 padded_autocorr_at_peak)

lemma np_mean_noise_window_padded: "np_mean (noise_window padded_autocorr 2) = 1/1568"
  unfolding noise_window_padded by (simp add: np_mean_def sum_list_replicate)

text \<open>
  The amended claim C4 at a failing library call, at a silent signal (no local maximum) and
  at \<open>padded_pulses\<close>: the strongest local maximum is at lag 2 with value 1/8, the mean of
  the 49 samples after it is 1/1568, and the result is \<open>10 * log10 196\<close>, between 20 and 40.
\<close>

theorem hnr_of_strongest_peak_witness:
  "calculate_hnr (\<lambda>y. None) silent_signal 22050 = Finite 10
   \<and> exact_autocorrelate silent_signal = Some (replicate 8 0)
   \<and> calculate_hnr exact_autocorrelate silent_signal 22050 = Finite 10
   \<and> exact_autocorrelate padded_pulses = Some padded_autocorr
   \<and> is_local_max padded_autocorr 22050 2
   \<and> calculate_hnr exact_autocorrelate padded_pulses 22050 = Finite (10 * log 10 196)
   \<and> np_less (Finite 20) (calculate_hnr exact_autocorrelate padded_pulses 22050)
   \<and> np_less (calculate_hnr exact_autocorrelate padded_pulses 22050) (Finite 40)"
proof -
  have 1: "calculate_hnr (\<lambda>y. None) silent_signal 22050 = Finite 10"
    by (rule hnr_of_strongest_peak [of "\<lambda>y. None" silent_signal 22050,
      THEN conjunct1, THEN mp]) simp
  have 2: "calculate_hnr exact_autocorrelate silent_signal 22050 = Finite 10"
    by (rule hnr_of_strongest_peak [of exact_autocorrelate silent_signal 22050,
      THEN conjunct2, THEN spec, THEN mp, OF autocorrelate_silent,
      THEN conjunct1, THEN mp]) (simp add: no_local_max_in_zeros)
  have ex: "\<exists>i. is_local_max padded_autocorr 22050 i"
    using local_max_padded by blast
  note peak_case = hnr_of_strongest_peak [of exact_autocorrelate padded_pulses 22050,
    THEN conjunct2, THEN spec, THEN mp, OF autocorrelate_padded_pulses,
    THEN conjunct2, THEN mp, OF ex]
  from peak_case obtain i where i: "is_local_max padded_autocorr 22050 i"
    "\<forall>k. is_local_max padded_autocorr 22050 k \<longrightarrow>
         padded_autocorr ! k \<le> padded_autocorr ! i"
    "calculate_hnr exact_autocorrelate padded_pulses 22050 =
       (if np_mean (noise_window padded_autocorr i) > 0
        then (if padded_autocorr ! i > 0
              then Finite (max 0 (min 40
                     (10 * log 10 (padded_autocorr ! i
                        / np_mean (noise_window padded_autocorr i)))))
              else if padded_autocorr ! i = 0 then Finite 0 else NaN)
        else Finite 10)"
    by blast
  have "padded_autocorr ! 2 \<le> padded_autocorr ! i"
    using i(2) local_max_padded by blast
  then have big: "1/8 \<le> padded_autocorr ! i" by (simp add: padded_autocorr_at_peak)
  have range: "1 \<le> i" "i < 11025"
    using i(1) by (simp_all add: is_local_max_def length_padded_autocorr)
  have i2: "i = 2"
  proof (rule ccontr)
    assume "i \<noteq> 2"
    then have "padded_autocorr ! i \<le> 1/16"
      using range by (intro padded_autocorr_elsewhere) simp_all
    then show False using big by simp
  qed
  have b: "20 < 10 * log 10 (196::real)" "10 * log 10 (196::real) < 40"
    by (simp_all add: decibel_bracket)
  have 3: "calculate_hnr exact_autocorrelate padded_pulses 22050 = Finite (10 * log 10 196)"
    using i(3) b unfolding i2 np_mean_noise_window_padded padded_autocorr_at_peak by simp
  have 4: "np_less (Finite 20) (calculate_hnr exact_autocorrelate padded_pulses 22050)"
    "np_less (calculate_hnr exact_autocorrelate padded_pulses 22050) (Finite 40)"
    unfolding 3 using b by simp_all
  from 1 autocorrelate_silent 2 autocorrelate_padded_pulses local_max_padded 3 4
  show ?thesis by (intro conjI)
qed

end
